theory Spec2Isabelle
  imports Complex_Main "HOL-Library.AList"
begin

section \<open>MNIST training script: a shallow embedding\<close>

text \<open>
  The script \<^verbatim>\<open>notebooks/part-1/deployment/pytorch_mnist_training.py\<close> trains a small
  convolutional classifier, logs metrics to a TensorBoard event writer and to an MLflow
  tracking client, and registers the scripted model behind a prediction wrapper.  The
  theory embeds its functions as HOL functions.  Python exceptions are values of the
  type \<open>error\<close>; tensors of 32-bit floats are nested lists of real numbers (rounding is
  not modelled).
\<close>

datatype error =
  KeyError | TypeError | ZeroDivisionError | AttributeError | ValueError
  | IndexError | RuntimeError | FileNotFoundError

subsection \<open>The conda environment manifest\<close>

text \<open>
  A manifest is what \<^verbatim>\<open>yaml\<close> gives: strings, lists and dicts.  A dict is an association
  list, so that the order of the keys is kept: \<open>map_of\<close> reads a key, \<open>AList.update\<close>
  assigns it (in place when the key is there, at the end otherwise), as Python does.
\<close>

datatype pyval = Str string | Lst "pyval list" | Dict "(string \<times> pyval) list"

type_synonym pydict = "(string \<times> pyval) list"

text \<open>\<^verbatim>\<open>type(_element) == dict\<close> and \<^verbatim>\<open>"pip" in _element.keys()\<close>.\<close>

fun has_pip :: "pyval \<Rightarrow> bool" where
  "has_pip (Dict d) = (''pip'' \<in> set (map fst d))"
| "has_pip _ = False"

text \<open>
  The loop of lines 207 to 212: the index of the first element that is a dict with the
  key \<^verbatim>\<open>"pip"\<close>; \<open>None\<close> when the loop ends without \<^verbatim>\<open>break\<close>.
\<close>

fun find_pip_from :: "nat \<Rightarrow> pyval list \<Rightarrow> nat option" where
  "find_pip_from i [] = None"
| "find_pip_from i (x # xs) = (if has_pip x then Some i else find_pip_from (Suc i) xs)"

definition find_pip :: "pyval list \<Rightarrow> nat option" where
  "find_pip xs = find_pip_from 0 xs"

text \<open>
  \<^verbatim>\<open>add_libraries_to_conda_env(_conda_env, libraries=[], conda_dependencies=[])\<close>.
  \<^item> \<^verbatim>\<open>_conda_env["dependencies"]\<close> raises KeyError when the key is missing;
  \<^item> \<^verbatim>\<open>dependencies + conda_dependencies\<close> raises TypeError unless the value is a list;
  \<^item> \<^verbatim>\<open>dependencies[pip_index]\<close> raises TypeError when \<^verbatim>\<open>pip_index\<close> is still \<^verbatim>\<open>None\<close>;
  \<^item> \<^verbatim>\<open>dependencies[pip_index]["pip"] + libraries\<close> raises TypeError unless the value
    under \<^verbatim>\<open>"pip"\<close> is a list.
  The concatenation of line 206 builds a new list, and line 214 stores it in the manifest,
  so the result is the manifest with the key \<^verbatim>\<open>"dependencies"\<close> reassigned.
\<close>

definition add_libraries_to_conda_env ::
  "pydict \<Rightarrow> pyval list \<Rightarrow> pyval list \<Rightarrow> error + pydict" where
  "add_libraries_to_conda_env conda_env libraries conda_dependencies =
     (case map_of conda_env ''dependencies'' of
        None \<Rightarrow> Inl KeyError
      | Some (Lst deps) \<Rightarrow>
          (let dependencies = deps @ conda_dependencies in
           case find_pip dependencies of
             None \<Rightarrow> Inl TypeError
           | Some pip_index \<Rightarrow>
               (case dependencies ! pip_index of
                  Dict d \<Rightarrow>
                    (case map_of d ''pip'' of
                       None \<Rightarrow> Inl KeyError
                     | Some (Lst pips) \<Rightarrow>
                         Inr (AList.update ''dependencies''
                                (Lst (dependencies
                                   [pip_index := Dict (AList.update ''pip'' (Lst (pips @ libraries)) d)]))
                                conda_env)
                     | Some _ \<Rightarrow> Inl TypeError)
                | _ \<Rightarrow> Inl TypeError))
      | Some _ \<Rightarrow> Inl TypeError)"

subsection \<open>Tensors and the network\<close>

text \<open>
  A tensor of rank 1, 2, 3 or 4 is a list nested that deep; a batch of images is
  \<open>N \<times> C \<times> H \<times> W\<close>.  \<open>param_tensors\<close> holds the eight parameter tensors created in
  \<^verbatim>\<open>Net.__init__\<close> (lines 96 to 100; \<^verbatim>\<open>conv2_drop\<close> has none), and \<open>net\<close> adds the
  module's mode flag \<^verbatim>\<open>self.training\<close>, which \<^verbatim>\<open>model.train()\<close> and \<^verbatim>\<open>model.eval()\<close> set.
\<close>

type_synonym t1 = "real list"
type_synonym t2 = "real list list"
type_synonym t3 = "real list list list"
type_synonym t4 = "real list list list list"

record param_tensors =
  conv1_weight :: t4
  conv1_bias :: t1
  conv2_weight :: t4
  conv2_bias :: t1
  fc1_weight :: t2
  fc1_bias :: t1
  fc2_weight :: t2
  fc2_bias :: t1

record net =
  parameters :: param_tensors
  training :: bool

text \<open>
  The script calls PyTorch, PIL and MLflow; what they compute is not in the repository.
  The record \<open>lib\<close> takes these operations as parameters; \<open>'g\<close> is the state of torch's
  random generator.
  \<^item> \<open>conv2d weight bias x\<close>, \<open>max_pool2d x k\<close>, \<open>linear_op weight bias x\<close>: the layers;
  \<^item> \<open>dropout2d g x\<close>, \<open>dropout g x\<close>: what \<^verbatim>\<open>nn.Dropout2d\<close> and \<^verbatim>\<open>F.dropout\<close> return in
    training mode, drawing the mask from the generator (in evaluation mode both are the
    identity and draw nothing, which \<open>forward\<close> writes out);
  \<^item> \<open>randint g n\<close>: a draw from the generator, used by the shuffling sampler;
  \<^item> \<open>backward p g data target\<close>: the gradient of the batch loss that \<^verbatim>\<open>loss.backward()\<close>
    leaves in \<^verbatim>\<open>.grad\<close>, for the forward pass run from generator state \<open>g\<close>;
  \<^item> \<open>sgd_step lr momentum grad (p, buf)\<close>: \<^verbatim>\<open>optimizer.step()\<close> of \<^verbatim>\<open>optim.SGD\<close>;
  \<^item> \<open>decode_image payload\<close>: lines 193 to 195, \<^verbatim>\<open>base64.b64decode\<close>, \<^verbatim>\<open>Image.open\<close> and
    \<^verbatim>\<open>np.array(image, dtype=np.uint8)\<close> for a single-channel image, or the error raised;
  \<^item> \<open>get_default_conda_env\<close>: the manifest \<^verbatim>\<open>mlflow.pytorch.get_default_conda_env()\<close>
    returns; \<open>mkdtemp\<close>: the directory \<^verbatim>\<open>tempfile.mkdtemp()\<close> creates.
  Errors raised inside these operations (a shape that does not fit, a tracking server
  that cannot be reached) are not modelled, but for \<open>decode_image\<close>.
\<close>

record 'g lib =
  conv2d :: "t4 \<Rightarrow> t1 \<Rightarrow> t4 \<Rightarrow> t4"
  max_pool2d :: "t4 \<Rightarrow> nat \<Rightarrow> t4"
  linear_op :: "t2 \<Rightarrow> t1 \<Rightarrow> t2 \<Rightarrow> t2"
  dropout2d :: "'g \<Rightarrow> t4 \<Rightarrow> t4 \<times> 'g"
  dropout :: "'g \<Rightarrow> t2 \<Rightarrow> t2 \<times> 'g"
  randint :: "'g \<Rightarrow> nat \<Rightarrow> nat \<times> 'g"
  backward :: "param_tensors \<Rightarrow> 'g \<Rightarrow> t4 \<Rightarrow> nat list \<Rightarrow> param_tensors"
  sgd_step :: "real \<Rightarrow> real \<Rightarrow> param_tensors \<Rightarrow> param_tensors \<times> param_tensors option
                 \<Rightarrow> param_tensors \<times> param_tensors option"
  decode_image :: "string \<Rightarrow> error + nat list list"
  get_default_conda_env :: pydict
  mkdtemp :: string

definition relu :: "real \<Rightarrow> real" where
  "relu v = max 0 v"

text \<open>
  \<^verbatim>\<open>x.view(-1, k)\<close>: the elements in row-major order, cut into rows of \<open>k\<close>; a
  RuntimeError when their number is not a multiple of \<open>k\<close>.
\<close>

definition view :: "t4 \<Rightarrow> nat \<Rightarrow> error + t2" where
  "view x k =
     (let flat = concat (concat (concat x)) in
      if length flat mod k = 0
      then Inr (map (\<lambda>i. take k (drop (i * k) flat)) [0..<length flat div k])
      else Inl RuntimeError)"

text \<open>
  \<^verbatim>\<open>F.log_softmax(x, dim)\<close> on a matrix \<open>x\<close>, whose rows are the batch (dim 0) and whose
  columns are the classes (dim 1): every entry minus the logarithm of the sum of the
  exponentials along \<open>dim\<close>.  With \<^verbatim>\<open>dim=0\<close> the sum runs down the column of the entry,
  over the rows of the batch; with \<^verbatim>\<open>dim=1\<close> along the row of the entry, over the
  classes.  A matrix has no other dimension (IndexError).
\<close>

definition log_softmax :: "t2 \<Rightarrow> nat \<Rightarrow> error + t2" where
  "log_softmax x axis =
     (if axis = 0 then
        Inr (map (\<lambda>row. map (\<lambda>c. row ! c - ln (\<Sum>r\<leftarrow>x. exp (r ! c))) [0..<length row]) x)
      else if axis = 1 then
        Inr (map (\<lambda>row. map (\<lambda>v. v - ln (\<Sum>u\<leftarrow>row. exp u)) row) x)
      else Inl IndexError)"

text \<open>
  \<^verbatim>\<open>Net.forward\<close>, lines 102 to 109, from generator state \<open>g\<close>; the result is the output
  (or the error of \<^verbatim>\<open>view\<close>) and the generator state after the call.
\<close>

definition forward :: "'g lib \<Rightarrow> net \<Rightarrow> 'g \<Rightarrow> t4 \<Rightarrow> (error + t2) \<times> 'g" where
  "forward T m g x =
     (let p = parameters m;
          x1 = map (map (map (map relu)))
                 (max_pool2d T (conv2d T (conv1_weight p) (conv1_bias p) x) 2);
          c2 = conv2d T (conv2_weight p) (conv2_bias p) x1;
          (d2, g1) = (if training m then dropout2d T g c2 else (c2, g));
          x2 = map (map (map (map relu))) (max_pool2d T d2 2)
      in case view x2 320 of
           Inl e \<Rightarrow> (Inl e, g1)
         | Inr x3 \<Rightarrow>
             (let x4 = map (map relu) (linear_op T (fc1_weight p) (fc1_bias p) x3);
                  (x5, g2) = (if training m then dropout T g1 x4 else (x4, g1));
                  x6 = linear_op T (fc2_weight p) (fc2_bias p) x5
              in (log_softmax x6 0, g2)))"

text \<open>
  \<^verbatim>\<open>F.nll_loss(output, target, reduction)\<close>: minus the output entry at each row's target
  class, summed, and divided by the number of rows for the default reduction
  \<^verbatim>\<open>'mean'\<close>.  ValueError when the batch sizes differ, IndexError when a target is not
  a class index.  Labels are natural numbers.
\<close>

datatype reduction = Mean | Sum

definition nll_loss :: "t2 \<Rightarrow> nat list \<Rightarrow> reduction \<Rightarrow> error + real" where
  "nll_loss output target red =
     (if length output \<noteq> length target then Inl ValueError
      else if \<not> list_all (\<lambda>(row, t). t < length row) (zip output target) then Inl IndexError
      else
        (let total = (\<Sum>(row, t)\<leftarrow>zip output target. - (row ! t)) in
         Inr (case red of Sum \<Rightarrow> total | Mean \<Rightarrow> total / real (length target))))"

text \<open>
  \<^verbatim>\<open>output.data.max(1)[1]\<close>: for every row the index of its maximum, the first one when
  several entries are maximal; IndexError on a row without entries.
\<close>

fun argmax_from :: "nat \<Rightarrow> nat \<Rightarrow> real \<Rightarrow> real list \<Rightarrow> nat" where
  "argmax_from i best b [] = best"
| "argmax_from i best b (v # vs) =
     (if b < v then argmax_from (Suc i) i v vs else argmax_from (Suc i) best b vs)"

definition max_dim1_indices :: "t2 \<Rightarrow> error + nat list" where
  "max_dim1_indices x =
     (if list_ex (\<lambda>row. row = []) x then Inl IndexError
      else Inr (map (\<lambda>row. argmax_from 1 0 (hd row) (tl row)) x))"

subsection \<open>The globals of the script\<close>

text \<open>
  The event writer receives \<^verbatim>\<open>add_scalar(name, value, step)\<close> and
  \<^verbatim>\<open>add_histogram(name, values, step)\<close>; the tracking client receives
  \<^verbatim>\<open>log_param(key, value)\<close>, \<^verbatim>\<open>log_metric(key, value, step=None)\<close>,
  \<^verbatim>\<open>log_artifacts(local_dir, artifact_path)\<close> and
  \<^verbatim>\<open>pyfunc.log_model(artifact_path, python_model, artifacts, conda_env)\<close>, whose
  \<^verbatim>\<open>python_model\<close> is a fresh \<^verbatim>\<open>PytorchModelWrapper()\<close>.  Each sink is the list of the
  calls it has received, in call order.
\<close>

datatype event =
  Add_scalar string real int
  | Add_histogram string "real list" int

datatype argval = IntV int | RealV real | StrV string | BoolV bool

datatype call =
  Log_param string argval
  | Log_metric string real "int option"
  | Log_artifacts string string
  | Log_model string "(string \<times> string) list" pydict

text \<open>The parsed command line, lines 32 to 53.\<close>

record arguments =
  batch_size :: int
  test_batch_size :: int
  epochs :: int
  lr :: real
  momentum :: real
  enable_cuda :: string
  seed :: int
  log_interval :: int
  cuda :: bool

definition vars_items :: "arguments \<Rightarrow> (string \<times> argval) list" where
  "vars_items a =
     [(''batch_size'', IntV (batch_size a)), (''test_batch_size'', IntV (test_batch_size a)),
      (''epochs'', IntV (epochs a)), (''lr'', RealV (lr a)), (''momentum'', RealV (momentum a)),
      (''enable_cuda'', StrV (enable_cuda a)), (''seed'', IntV (seed a)),
      (''log_interval'', IntV (log_interval a)), (''cuda'', BoolV (cuda a))]"

text \<open>
  A \<^verbatim>\<open>DataLoader\<close> over a dataset of (image, label) pairs, with a positive batch size,
  \<^verbatim>\<open>shuffle=True\<close> and the default \<^verbatim>\<open>drop_last=False\<close> (lines 60 to 72).
  \<^verbatim>\<open>len(loader)\<close> is the number of batches, \<^verbatim>\<open>len(loader.dataset)\<close> the number of
  examples.
\<close>

record loader =
  dataset :: "(t3 \<times> nat) list"
  loader_batch_size :: nat

record config =
  args :: arguments
  train_loader :: loader
  test_loader :: loader

definition len_loader :: "loader \<Rightarrow> nat" where
  "len_loader ld = (length (dataset ld) + loader_batch_size ld - 1) div loader_batch_size ld"

text \<open>
  Iterating the loader: the sampler draws a random order of the dataset from the
  generator (one position at a time), the order is cut into batches, and each batch is
  collated into a data tensor and a list of targets.
\<close>

function shuffle :: "'g lib \<Rightarrow> 'g \<Rightarrow> 'a list \<Rightarrow> 'a list \<times> 'g" where
  "shuffle T g xs =
     (if xs = [] then ([], g)
      else
        (let kg = randint T g (length xs);
             i = fst kg mod length xs;
             rg = shuffle T (snd kg) (take i xs @ drop (Suc i) xs)
         in (xs ! i # fst rg, snd rg)))"
  by pat_completeness auto
termination
proof (relation "measure (\<lambda>(T, g, xs). length xs)", goal_cases)
  case 1
  show ?case by simp
next
  case (2 T g xs kg i)
  then have "i < length xs" by simp
  then have "i + (length xs - Suc i) < length xs" by arith
  with 2 show ?case by simp
qed

declare shuffle.simps [simp del]

definition batches :: "nat \<Rightarrow> 'a list \<Rightarrow> 'a list list" where
  "batches bs xs = map (\<lambda>i. take bs (drop (i * bs) xs)) [0..<(length xs + bs - 1) div bs]"

definition collate :: "(t3 \<times> nat) list \<Rightarrow> t4 \<times> nat list" where
  "collate exs = (map fst exs, map snd exs)"

definition iter_loader :: "'g lib \<Rightarrow> loader \<Rightarrow> 'g \<Rightarrow> (t4 \<times> nat list) list \<times> 'g" where
  "iter_loader T ld g =
     (let (xs, g1) = shuffle T g (dataset ld)
      in (map collate (batches (loader_batch_size ld) xs), g1))"

text \<open>
  The mutable globals: \<^verbatim>\<open>model\<close>, the gradients and the momentum buffers that
  \<^verbatim>\<open>optimizer\<close> works on, torch's generator, \<^verbatim>\<open>writer\<close> (\<^verbatim>\<open>None\<close> until line 225; then
  the events it has received), the tracking client, and the files that
  \<^verbatim>\<open>torch.jit.save\<close> has written.
\<close>

record 'g state =
  model :: net
  grad :: "param_tensors option"
  momentum_buffer :: "param_tensors option"
  rng :: 'g
  writer :: "event list option"
  mlflow :: "call list"
  files :: "string \<rightharpoonup> net"

text \<open>
  A call either returns or raises; in both cases the globals are what the call has made
  of them by then.
\<close>

datatype 's result = Done 's | Raised error 's

fun state_of :: "'s result \<Rightarrow> 's" where
  "state_of (Done s) = s"
| "state_of (Raised e s) = s"

fun and_then :: "'s result \<Rightarrow> ('s \<Rightarrow> 's result) \<Rightarrow> 's result" where
  "and_then (Done s) f = f s"
| "and_then (Raised e s) f = Raised e s"

subsection \<open>Logging\<close>

text \<open>
  A method call on \<^verbatim>\<open>writer\<close> while it is still \<^verbatim>\<open>None\<close> raises AttributeError.
\<close>

definition add_scalar :: "string \<Rightarrow> real \<Rightarrow> int \<Rightarrow> 'g state \<Rightarrow> 'g state result" where
  "add_scalar name v step s =
     (case writer s of
        None \<Rightarrow> Raised AttributeError s
      | Some evs \<Rightarrow> Done (s\<lparr>writer := Some (evs @ [Add_scalar name v step])\<rparr>))"

definition add_histogram :: "string \<Rightarrow> real list \<Rightarrow> int \<Rightarrow> 'g state \<Rightarrow> 'g state result" where
  "add_histogram name vs step s =
     (case writer s of
        None \<Rightarrow> Raised AttributeError s
      | Some evs \<Rightarrow> Done (s\<lparr>writer := Some (evs @ [Add_histogram name vs step])\<rparr>))"

text \<open>\<^verbatim>\<open>mlflow.log_metric(name, value)\<close>: the call of line 174 passes no step.\<close>

definition log_metric :: "string \<Rightarrow> real \<Rightarrow> int option \<Rightarrow> 'g state \<Rightarrow> 'g state result" where
  "log_metric key v step s = Done (s\<lparr>mlflow := mlflow s @ [Log_metric key v step]\<rparr>)"

text \<open>\<^verbatim>\<open>log_scalar\<close>, lines 171 to 174.\<close>

definition log_scalar :: "string \<Rightarrow> real \<Rightarrow> int \<Rightarrow> 'g state \<Rightarrow> 'g state result" where
  "log_scalar name v step s =
     and_then (add_scalar name v step s) (log_metric name v None)"

text \<open>
  \<^verbatim>\<open>Net.log_weights\<close>, lines 111 to 119: one histogram for each parameter tensor of the
  global \<^verbatim>\<open>model\<close>, over the tensor's entries.
\<close>

definition weight_histograms :: "param_tensors \<Rightarrow> (string \<times> real list) list" where
  "weight_histograms p =
     [(''weights/conv1/weight'', concat (concat (concat (conv1_weight p)))),
      (''weights/conv1/bias'', conv1_bias p),
      (''weights/conv2/weight'', concat (concat (concat (conv2_weight p)))),
      (''weights/conv2/bias'', conv2_bias p),
      (''weights/fc1/weight'', concat (fc1_weight p)),
      (''weights/fc1/bias'', fc1_bias p),
      (''weights/fc2/weight'', concat (fc2_weight p)),
      (''weights/fc2/bias'', fc2_bias p)]"

fun add_histograms :: "(string \<times> real list) list \<Rightarrow> int \<Rightarrow> 'g state \<Rightarrow> 'g state result" where
  "add_histograms [] step s = Done s"
| "add_histograms ((name, vs) # rest) step s =
     (case add_histogram name vs step s of
        Raised e s' \<Rightarrow> Raised e s'
      | Done s' \<Rightarrow> add_histograms rest step s')"

definition log_weights :: "int \<Rightarrow> 'g state \<Rightarrow> 'g state result" where
  "log_weights step s = add_histograms (weight_histograms (parameters (model s))) step s"

subsection \<open>Training and evaluation\<close>

text \<open>
  The loop of \<^verbatim>\<open>train\<close>, lines 132 to 147, over the enumerated batches.  The console
  line of lines 142 to 144 is not modelled.  \<^verbatim>\<open>batch_idx % args.log_interval\<close> raises
  ZeroDivisionError when the interval is 0; otherwise Python's remainder has the sign of
  the divisor, as \<open>mod\<close> on \<open>int\<close> has.
\<close>

fun train_batches ::
  "'g lib \<Rightarrow> config \<Rightarrow> int \<Rightarrow> (nat \<times> t4 \<times> nat list) list \<Rightarrow> 'g state \<Rightarrow> 'g state result" where
  "train_batches T C epoch [] s = Done s"
| "train_batches T C epoch ((batch_idx, data, target) # rest) s =
     (let s1 = s\<lparr>grad := None\<rparr>;
          g0 = rng s1
      in case forward T (model s1) g0 data of
           (Inl e, g1) \<Rightarrow> Raised e (s1\<lparr>rng := g1\<rparr>)
         | (Inr output, g1) \<Rightarrow>
             (case nll_loss output target Mean of
                Inl e \<Rightarrow> Raised e (s1\<lparr>rng := g1\<rparr>)
              | Inr loss \<Rightarrow>
                  (let gr = backward T (parameters (model s1)) g0 data target;
                       s2 = s1\<lparr>rng := g1, grad := Some gr\<rparr>;
                       pb = sgd_step T (lr (args C)) (momentum (args C)) gr
                              (parameters (model s2), momentum_buffer s2);
                       s3 = s2\<lparr>model := (model s2)\<lparr>parameters := fst pb\<rparr>,
                               momentum_buffer := snd pb\<rparr>
                   in if log_interval (args C) = 0 then Raised ZeroDivisionError s3
                      else if int batch_idx mod log_interval (args C) = 0 then
                        (let step = epoch * int (len_loader (train_loader C)) + int batch_idx
                         in case log_scalar ''train_loss'' loss step s3 of
                              Raised e s4 \<Rightarrow> Raised e s4
                            | Done s4 \<Rightarrow>
                                (case log_weights step s4 of
                                   Raised e s5 \<Rightarrow> Raised e s5
                                 | Done s5 \<Rightarrow> train_batches T C epoch rest s5))
                      else train_batches T C epoch rest s3)))"

text \<open>\<^verbatim>\<open>train(epoch)\<close>, lines 130 to 147.\<close>

definition train :: "'g lib \<Rightarrow> config \<Rightarrow> int \<Rightarrow> 'g state \<Rightarrow> 'g state result" where
  "train T C epoch s =
     (let s1 = s\<lparr>model := (model s)\<lparr>training := True\<rparr>\<rparr>;
          (bs, g1) = iter_loader T (train_loader C) (rng s1)
      in train_batches T C epoch (enumerate 0 bs) (s1\<lparr>rng := g1\<rparr>))"

text \<open>
  The loop of \<^verbatim>\<open>test\<close>, lines 154 to 161, under \<^verbatim>\<open>torch.no_grad()\<close>: it reads the model
  and carries the summed loss and the number of correct predictions.
\<close>

definition count_eq :: "nat list \<Rightarrow> nat list \<Rightarrow> nat" where
  "count_eq pred target = length (filter (\<lambda>(p, t). p = t) (zip pred target))"

fun test_batches ::
  "'g lib \<Rightarrow> net \<Rightarrow> (t4 \<times> nat list) list \<Rightarrow> real \<times> nat \<Rightarrow> 'g \<Rightarrow> (error + real \<times> nat) \<times> 'g" where
  "test_batches T m [] acc g = (Inr acc, g)"
| "test_batches T m ((data, target) # rest) (test_loss, correct) g =
     (case forward T m g data of
        (Inl e, g1) \<Rightarrow> (Inl e, g1)
      | (Inr output, g1) \<Rightarrow>
          (case nll_loss output target Sum of
             Inl e \<Rightarrow> (Inl e, g1)
           | Inr l \<Rightarrow>
               (case max_dim1_indices output of
                  Inl e \<Rightarrow> (Inl e, g1)
                | Inr pred \<Rightarrow>
                    test_batches T m rest (test_loss + l, correct + count_eq pred target) g1)))"

text \<open>
  \<^verbatim>\<open>test(epoch)\<close>, lines 149 to 169.  The divisions of lines 163 and 164 raise
  ZeroDivisionError on an empty dataset.  The console line is not modelled.
\<close>

definition test :: "'g lib \<Rightarrow> config \<Rightarrow> int \<Rightarrow> 'g state \<Rightarrow> 'g state result" where
  "test T C epoch s =
     (let s1 = s\<lparr>model := (model s)\<lparr>training := False\<rparr>\<rparr>;
          (bs, g1) = iter_loader T (test_loader C) (rng s1)
      in case test_batches T (model s1) bs (0, 0) g1 of
           (Inl e, g2) \<Rightarrow> Raised e (s1\<lparr>rng := g2\<rparr>)
         | (Inr (test_loss, correct), g2) \<Rightarrow>
             (let s2 = s1\<lparr>rng := g2\<rparr>;
                  n = length (dataset (test_loader C))
              in if n = 0 then Raised ZeroDivisionError s2
                 else
                   (let test_loss' = test_loss / real n;
                        test_accuracy = 100 * real correct / real n;
                        step = (epoch + 1) * int (len_loader (train_loader C))
                    in and_then (log_scalar ''test_loss'' test_loss' step s2)
                         (log_scalar ''test_accuracy'' test_accuracy step))))"

subsection \<open>The run\<close>

text \<open>The loop of lines 229 to 231 over \<^verbatim>\<open>range(1, args.epochs + 1)\<close>.\<close>

fun run_epochs :: "'g lib \<Rightarrow> config \<Rightarrow> int list \<Rightarrow> 'g state \<Rightarrow> 'g state result" where
  "run_epochs T C [] s = Done s"
| "run_epochs T C (epoch # rest) s =
     (case train T C epoch s of
        Raised e s1 \<Rightarrow> Raised e s1
      | Done s1 \<Rightarrow>
          (case test T C epoch s1 of
             Raised e s2 \<Rightarrow> Raised e s2
           | Done s2 \<Rightarrow> run_epochs T C rest s2))"

text \<open>
  The body of \<^verbatim>\<open>with mlflow.start_run()\<close>, lines 218 to 251: the parameters are logged,
  the writer is created, the epochs run, the event directory is uploaded, the model is
  scripted and saved, the manifest is extended, and the model is registered.
\<close>

definition main :: "'g lib \<Rightarrow> config \<Rightarrow> 'g state \<Rightarrow> 'g state result" where
  "main T C s =
     (let s1 = s\<lparr>mlflow := mlflow s @ map (\<lambda>(key, v). Log_param key v) (vars_items (args C))\<rparr>;
          output_dir = mkdtemp T;
          s2 = s1\<lparr>writer := Some []\<rparr>
      in and_then (run_epochs T C [1..epochs (args C)] s2)
           (\<lambda>s3.
              let s4 = s3\<lparr>mlflow := mlflow s3 @ [Log_artifacts output_dir ''events'']\<rparr>;
                  scripted_model = model s4;
                  s5 = s4\<lparr>files := (files s4)(''scripted_model.pth'' \<mapsto> scripted_model)\<rparr>;
                  model_artifacts = [(''scripted_model'', ''scripted_model.pth'')]
              in case add_libraries_to_conda_env (get_default_conda_env T)
                        [Str ''typing-extensions'', Str ''Pillow''] [] of
                   Inl e \<Rightarrow> Raised e s5
                 | Inr conda_env \<Rightarrow>
                     Done (s5\<lparr>mlflow := mlflow s5 @
                                [Log_model ''pytorch-model'' model_artifacts conda_env]\<rparr>)))"

subsection \<open>The inference wrapper\<close>

text \<open>
  \<^verbatim>\<open>PytorchModelWrapper\<close>, lines 177 to 201.  The attribute \<^verbatim>\<open>self.model\<close> exists only
  after \<^verbatim>\<open>load_context\<close>; \<^verbatim>\<open>torch.jit.load\<close> gives back the module that was saved,
  its parameters and its mode flag.
\<close>

record wrapper =
  wrapped_model :: "net option"

definition load_context ::
  "(string \<rightharpoonup> net) \<Rightarrow> (string \<times> string) list \<Rightarrow> wrapper \<Rightarrow> error + wrapper" where
  "load_context fs artifacts w =
     (case map_of artifacts ''scripted_model'' of
        None \<Rightarrow> Inl KeyError
      | Some scripted_model \<Rightarrow>
          (case fs scripted_model of
             None \<Rightarrow> Inl FileNotFoundError
           | Some m \<Rightarrow> Inr (w\<lparr>wrapped_model := Some m\<rparr>)))"

text \<open>
  The loop of lines 192 to 197 over the rows of the input table: \<^verbatim>\<open>row["images"]\<close> is
  decoded into a pixel array, which gets a channel axis in front.
\<close>

fun decode_rows :: "'g lib \<Rightarrow> (string \<times> string) list list \<Rightarrow> error + t3 list" where
  "decode_rows T [] = Inr []"
| "decode_rows T (row # rest) =
     (case map_of row ''images'' of
        None \<Rightarrow> Inl KeyError
      | Some payload \<Rightarrow>
          (case decode_image T payload of
             Inl e \<Rightarrow> Inl e
           | Inr image_np \<Rightarrow>
               (case decode_rows T rest of
                  Inl e \<Rightarrow> Inl e
                | Inr nparray_list \<Rightarrow> Inr ([map (map real) image_np] # nparray_list))))"

text \<open>
  \<^verbatim>\<open>np.stack(nparray_list, axis=0)\<close>: ValueError on an empty list and on arrays of
  different shapes.
\<close>

definition np_stack :: "t3 list \<Rightarrow> error + t4" where
  "np_stack arrs =
     (if arrs = [] then Inl ValueError
      else if \<not> list_all (\<lambda>a. map (map length) a = map (map length) (hd arrs)) arrs
        then Inl ValueError
      else Inr arrs)"

text \<open>\<^verbatim>\<open>predict(self, context, model_input)\<close>, lines 184 to 201.\<close>

definition predict ::
  "'g lib \<Rightarrow> wrapper \<Rightarrow> (string \<times> string) list list \<Rightarrow> 'g \<Rightarrow> (error + nat list) \<times> 'g" where
  "predict T w model_input g =
     (case decode_rows T model_input of
        Inl e \<Rightarrow> (Inl e, g)
      | Inr nparray_list \<Rightarrow>
          (case np_stack nparray_list of
             Inl e \<Rightarrow> (Inl e, g)
           | Inr torch_tensor \<Rightarrow>
               (case wrapped_model w of
                  None \<Rightarrow> (Inl AttributeError, g)
                | Some m \<Rightarrow>
                    (case forward T m g torch_tensor of
                       (Inl e, g1) \<Rightarrow> (Inl e, g1)
                     | (Inr out, g1) \<Rightarrow> (max_dim1_indices out, g1)))))"

subsection \<open>The initial globals and what the sinks hold\<close>

text \<open>
  The globals when line 218 is reached: \<^verbatim>\<open>Net()\<close> is in training mode, no gradient and
  no momentum buffer exists yet, \<^verbatim>\<open>writer\<close> is \<^verbatim>\<open>None\<close>, nothing has been sent or saved.
  \<open>p\<close> is the initial value of the parameters and \<open>g\<close> the seeded generator.
\<close>

definition initial_state :: "param_tensors \<Rightarrow> 'g \<Rightarrow> 'g state" where
  "initial_state p g =
     \<lparr>model = \<lparr>parameters = p, training = True\<rparr>, grad = None, momentum_buffer = None,
      rng = g, writer = None, mlflow = [], files = Map.empty\<rparr>"

text \<open>
  What each sink holds of the metric events: the name, the value and the step index
  (if the sink was given one) of every scalar it has received.  \<open>events\<close> is what
  the event writer has received so far, and \<open>event_step\<close> the step index of an event.
\<close>

fun local_metric :: "event \<Rightarrow> (string \<times> real \<times> int option) list" where
  "local_metric (Add_scalar name v step) = [(name, v, Some step)]"
| "local_metric (Add_histogram name vs step) = []"

fun remote_metric :: "call \<Rightarrow> (string \<times> real \<times> int option) list" where
  "remote_metric (Log_metric key v step) = [(key, v, step)]"
| "remote_metric _ = []"

fun event_step :: "event \<Rightarrow> int" where
  "event_step (Add_scalar name v step) = step"
| "event_step (Add_histogram name vs step) = step"

definition events :: "'g state \<Rightarrow> event list" where
  "events s = (case writer s of None \<Rightarrow> [] | Some evs \<Rightarrow> evs)"

definition local_metrics :: "'g state \<Rightarrow> (string \<times> real \<times> int option) list" where
  "local_metrics s = concat (map local_metric (events s))"

definition remote_metrics :: "'g state \<Rightarrow> (string \<times> real \<times> int option) list" where
  "remote_metrics s = concat (map remote_metric (mlflow s))"

subsection \<open>A concrete network\<close>

text \<open>
  Parameter tensors of the shapes of lines 96 to 100, all entries zero.
\<close>

definition zero_params :: param_tensors where
  "zero_params =
     \<lparr>conv1_weight = replicate 10 (replicate 1 (replicate 5 (replicate 5 0))),
      conv1_bias = replicate 10 0,
      conv2_weight = replicate 20 (replicate 10 (replicate 5 (replicate 5 0))),
      conv2_bias = replicate 20 0,
      fc1_weight = replicate 50 (replicate 320 0),
      fc1_bias = replicate 50 0,
      fc2_weight = replicate 10 (replicate 50 0),
      fc2_bias = replicate 10 0\<rparr>"

subsection \<open>An instance of the library\<close>

text \<open>
  To run the model on concrete inputs the library record needs an instance.  The layers
  of the instance are written out below, on tensors whose shapes fit.
\<close>

text \<open>
  \<^verbatim>\<open>nn.Conv2d\<close> with stride 1 and no padding: every output channel is the bias plus the
  cross-correlation of the input channels with the kernel.
\<close>

definition conv2d_ref :: "t4 \<Rightarrow> t1 \<Rightarrow> t4 \<Rightarrow> t4" where
  "conv2d_ref weight bias x =
     (let kh = length (weight ! 0 ! 0); kw = length (weight ! 0 ! 0 ! 0) in
      map (\<lambda>img.
        map (\<lambda>oc.
          map (\<lambda>i.
            map (\<lambda>j. bias ! oc +
                  (\<Sum>c\<leftarrow>[0..<length img]. \<Sum>di\<leftarrow>[0..<kh]. \<Sum>dj\<leftarrow>[0..<kw].
                      weight ! oc ! c ! di ! dj * img ! c ! (i + di) ! (j + dj)))
              [0..<length (img ! 0 ! 0) + 1 - kw])
            [0..<length (img ! 0) + 1 - kh])
          [0..<length weight])
        x)"

text \<open>\<^verbatim>\<open>F.max_pool2d(x, k)\<close>: the maximum of every \<open>k \<times> k\<close> window, with stride \<open>k\<close>.\<close>

definition max_pool2d_ref :: "t4 \<Rightarrow> nat \<Rightarrow> t4" where
  "max_pool2d_ref x k =
     map (map (\<lambda>ch.
        map (\<lambda>i.
          map (\<lambda>j. Max (set (concat (map (\<lambda>di. map (\<lambda>dj. ch ! (k * i + di) ! (k * j + dj)) [0..<k]) [0..<k]))))
            [0..<length (ch ! 0) div k])
          [0..<length ch div k])) x"

text \<open>\<^verbatim>\<open>nn.Linear\<close>: for every row, the bias plus the product with the weight matrix.\<close>

definition linear_ref :: "t2 \<Rightarrow> t1 \<Rightarrow> t2 \<Rightarrow> t2" where
  "linear_ref weight bias x =
     map (\<lambda>row. map (\<lambda>oc. bias ! oc + (\<Sum>k\<leftarrow>[0..<length row]. weight ! oc ! k * row ! k))
                  [0..<length weight]) x"

text \<open>
  The generator of the instance is the sequence of the coin flips still to come.
  Dropout with the default probability one half keeps an entry, scaled by 2, where the
  coin says so, and zeroes it otherwise; \<^verbatim>\<open>Dropout2d\<close> does so for whole channels.  Each
  call uses one coin for each entry (each channel) and leaves the rest.
\<close>

type_synonym coins = "nat \<Rightarrow> bool"

definition dropout_ref :: "coins \<Rightarrow> t2 \<Rightarrow> t2 \<times> coins" where
  "dropout_ref g x =
     (map (\<lambda>(r, row). map (\<lambda>(k, v). if g (r * length row + k) then 2 * v else 0)
                           (enumerate 0 row)) (enumerate 0 x),
      \<lambda>i. g (i + length (concat x)))"

definition dropout2d_ref :: "coins \<Rightarrow> t4 \<Rightarrow> t4 \<times> coins" where
  "dropout2d_ref g x =
     (map (\<lambda>(n, img). map (\<lambda>(c, ch). if g (n * length img + c) then map (map (\<lambda>v. 2 * v)) ch
                                         else map (map (\<lambda>v. 0)) ch)
                           (enumerate 0 img)) (enumerate 0 x),
      \<lambda>i. g (i + length (concat x)))"

text \<open>
  The instance \<open>demo_lib\<close>.  Its layers are the operations above.  The other
  operations are fixed to simple values: every payload decodes to the blank 28 by 28
  image, \<open>backward\<close> returns the zero gradient and \<open>sgd_step\<close> keeps the parameters
  (as SGD does on a zero gradient), and the sampler's draw is its next coin.
\<close>

definition blank_image :: "nat list list" where
  "blank_image = replicate 28 (replicate 28 0)"

definition demo_lib :: "coins lib" where
  "demo_lib =
     \<lparr>conv2d = conv2d_ref, max_pool2d = max_pool2d_ref, linear_op = linear_ref,
      dropout2d = dropout2d_ref, dropout = dropout_ref,
      randint = (\<lambda>g n. (if g 0 then 1 else 0, \<lambda>i. g (i + 1))),
      backward = (\<lambda>p g data target. zero_params),
      sgd_step = (\<lambda>lr momentum gr (p, buf). (p, Some gr)),
      decode_image = (\<lambda>payload. Inr blank_image),
      get_default_conda_env =
        [(''name'', Str ''mlflow-env''),
         (''channels'', Lst [Str ''conda-forge'']),
         (''dependencies'', Lst [Str ''python'', Str ''pip'',
             Dict [(''pip'', Lst [Str ''mlflow'', Str ''torch'', Str ''cloudpickle''])]])],
      mkdtemp = ''/tmp/events''\<rparr>"

text \<open>A batch of \<open>N\<close> blank single-channel images.\<close>

definition blank_batch :: "nat \<Rightarrow> t4" where
  "blank_batch N = replicate N (replicate 1 (replicate 28 (replicate 28 0)))"

subsection \<open>Concrete inputs\<close>

text \<open>
  A small run configuration: both loaders hold one blank image with the label 0, in
  batches of 1.  \<open>no_coins\<close> is the generator whose coins all say "drop" (and "0").
\<close>

definition demo_loader :: loader where
  "demo_loader = \<lparr>dataset = [([replicate 28 (replicate 28 0)], 0)], loader_batch_size = 1\<rparr>"

definition demo_config :: "int \<Rightarrow> int \<Rightarrow> config" where
  "demo_config n_epochs interval =
     \<lparr>args = \<lparr>batch_size = 1, test_batch_size = 1, epochs = n_epochs, lr = 1 / 100,
               momentum = 1 / 2, enable_cuda = ''False'', seed = 1, log_interval = interval,
               cuda = False\<rparr>,
      train_loader = demo_loader, test_loader = demo_loader\<rparr>"

definition no_coins :: coins where
  "no_coins = (\<lambda>i. False)"

text \<open>
  The step values, in call order, of the scalar events whose name is in \<open>names\<close>.
\<close>

fun metric_steps :: "string list \<Rightarrow> event list \<Rightarrow> int list" where
  "metric_steps names [] = []"
| "metric_steps names (Add_scalar name v step # evs) =
     (if name \<in> set names then step # metric_steps names evs else metric_steps names evs)"
| "metric_steps names (Add_histogram name vs step # evs) = metric_steps names evs"

text \<open>
  A network on which dropout shows: the convolutions and \<^verbatim>\<open>fc1\<close> have zero weights,
  every unit of \<^verbatim>\<open>fc1\<close> has the bias 0.01, and \<^verbatim>\<open>fc2\<close> sums the 50 units into class 0.
  \<open>two_rows\<close> is an input table of two rows, and \<open>demo_coins\<close> a generator that keeps the
  first 90 entries, drops the next 140, and keeps the rest.
\<close>

definition dropout_params :: param_tensors where
  "dropout_params =
     zero_params\<lparr>fc1_bias := replicate 50 (1 / 100),
                 fc2_weight := replicate 50 1 # replicate 9 (replicate 50 0)\<rparr>"

definition two_rows :: "(string \<times> string) list list" where
  "two_rows = [[(''images'', ''iVBORw0KGgo='')], [(''images'', ''iVBORw0KGgo='')]]"

definition demo_coins :: coins where
  "demo_coins = (\<lambda>i. i < 90 \<or> 230 \<le> i)"

section \<open>Properties\<close>

subsection \<open>The manifest merge\<close>

lemma find_pip_from_None:
  "find_pip_from i xs = None \<longleftrightarrow> (\<forall>x\<in>set xs. \<not> has_pip x)"
  by (induction xs arbitrary: i) auto

lemma find_pip_from_first:
  "\<forall>x\<in>set pre. \<not> has_pip x \<Longrightarrow> has_pip y \<Longrightarrow>
   find_pip_from i (pre @ y # post) = Some (i + length pre)"
  by (induction pre arbitrary: i) auto

lemma find_pip_from_bound:
  "find_pip_from i xs = Some j \<Longrightarrow> i \<le> j \<and> j < i + length xs \<and> has_pip (xs ! (j - i))"
proof (induction xs arbitrary: i)
  case Nil
  then show ?case by simp
next
  case (Cons x xs)
  show ?case
  proof (cases "has_pip x")
    case True
    with Cons.prems show ?thesis by simp
  next
    case False
    with Cons.prems have "find_pip_from (Suc i) xs = Some j" by simp
    from Cons.IH [OF this] have "Suc i \<le> j" "j < Suc i + length xs" "has_pip (xs ! (j - Suc i))"
      by simp_all
    moreover from \<open>Suc i \<le> j\<close> have "(x # xs) ! (j - i) = xs ! (j - Suc i)"
      by (simp add: Suc_diff_le)
    ultimately show ?thesis by simp
  qed
qed

text \<open>
  Claim C3.  When the manifest's dependencies list, extended by \<^verbatim>\<open>conda_dependencies\<close>,
  holds no dict with the key \<^verbatim>\<open>"pip"\<close>, the function raises (TypeError, at the lookup
  \<^verbatim>\<open>dependencies[None]\<close>) and returns no manifest.
\<close>

theorem add_libraries_no_pip_raises:
  assumes "map_of conda_env ''dependencies'' = Some (Lst deps)"
    and "\<forall>x\<in>set (deps @ conda_dependencies). \<not> has_pip x"
  shows "add_libraries_to_conda_env conda_env libraries conda_dependencies = Inl TypeError"
proof -
  from assms(2) have "find_pip (deps @ conda_dependencies) = None"
    unfolding find_pip_def by (simp only: find_pip_from_None)
  with assms(1) show ?thesis
    by (simp add: add_libraries_to_conda_env_def)
qed

theorem add_libraries_no_pip_raises_witness:
  "add_libraries_to_conda_env
     [(''name'', Str ''mlflow-env''), (''dependencies'', Lst [Str ''python=3.8'', Str ''pip''])]
     [Str ''Pillow''] [Dict [(''conda'', Lst [])]] = Inl TypeError"
  by (rule add_libraries_no_pip_raises [where deps = "[Str ''python=3.8'', Str ''pip'']"]) simp_all

text \<open>
  Claim C4.  With libraries \<^verbatim>\<open>["Pillow"]\<close> and a manifest whose first dict with the key
  \<^verbatim>\<open>"pip"\<close> holds the list \<^verbatim>\<open>["mlflow"]\<close>, the function returns a manifest whose pip
  list is exactly \<^verbatim>\<open>["mlflow", "Pillow"]\<close>; the manifest keeps its keys and their order,
  every key other than \<^verbatim>\<open>"dependencies"\<close> keeps its value, every other element of the
  dependencies list is unchanged, and so is every other key of the pip dict.
\<close>

theorem add_libraries_pillow:
  assumes deps: "map_of conda_env ''dependencies'' = Some (Lst (pre @ Dict d # post))"
    and pre: "\<forall>x\<in>set pre. \<not> has_pip x"
    and pip: "map_of d ''pip'' = Some (Lst [Str ''mlflow''])"
  shows "\<exists>env' d'.
      add_libraries_to_conda_env conda_env [Str ''Pillow''] [] = Inr env'
    \<and> map fst env' = map fst conda_env
    \<and> (\<forall>k. k \<noteq> ''dependencies'' \<longrightarrow> map_of env' k = map_of conda_env k)
    \<and> map_of env' ''dependencies'' = Some (Lst (pre @ Dict d' # post))
    \<and> map fst d' = map fst d
    \<and> (\<forall>k. k \<noteq> ''pip'' \<longrightarrow> map_of d' k = map_of d k)
    \<and> map_of d' ''pip'' = Some (Lst [Str ''mlflow'', Str ''Pillow''])"
proof -
  let ?d' = "AList.update ''pip'' (Lst [Str ''mlflow'', Str ''Pillow'']) d"
  let ?deps' = "Lst (pre @ Dict ?d' # post)"
  let ?env' = "AList.update ''dependencies'' ?deps' conda_env"
  from pip have inpip: "''pip'' \<in> set (map fst d)"
    by (metis domI dom_map_of_conv_image_fst set_map)
  then have hp: "has_pip (Dict d)" by simp
  from deps have indeps: "''dependencies'' \<in> set (map fst conda_env)"
    by (metis domI dom_map_of_conv_image_fst set_map)
  from pre hp have idx: "find_pip (pre @ Dict d # post) = Some (length pre)"
    unfolding find_pip_def using find_pip_from_first [of pre "Dict d" 0 post] by simp
  have run: "add_libraries_to_conda_env conda_env [Str ''Pillow''] [] = Inr ?env'"
    using deps idx pip by (simp add: add_libraries_to_conda_env_def)
  have k1: "map fst ?env' = map fst conda_env"
    using indeps by (simp add: update_keys)
  have k2: "\<forall>k. k \<noteq> ''dependencies'' \<longrightarrow> map_of ?env' k = map_of conda_env k"
    by (simp add: update_conv')
  have k3: "map_of ?env' ''dependencies'' = Some ?deps'"
    by (simp add: update_conv')
  have k4: "map fst ?d' = map fst d"
    using inpip by (simp add: update_keys)
  have k5: "\<forall>k. k \<noteq> ''pip'' \<longrightarrow> map_of ?d' k = map_of d k"
    by (simp add: update_conv')
  have k6: "map_of ?d' ''pip'' = Some (Lst [Str ''mlflow'', Str ''Pillow''])"
    by (simp add: update_conv')
  from run k1 k2 k3 k4 k5 k6 show ?thesis by blast
qed

theorem add_libraries_pillow_witness:
  "\<exists>env' d'.
      add_libraries_to_conda_env
        [(''name'', Str ''mlflow-env''),
         (''dependencies'', Lst [Str ''python=3.8'', Dict [(''pip'', Lst [Str ''mlflow''])], Str ''pip'']),
         (''channels'', Lst [Str ''defaults''])]
        [Str ''Pillow''] [] = Inr env'
    \<and> map fst env' = [''name'', ''dependencies'', ''channels'']
    \<and> (\<forall>k. k \<noteq> ''dependencies'' \<longrightarrow> map_of env' k =
          map_of [(''name'', Str ''mlflow-env''),
         (''dependencies'', Lst [Str ''python=3.8'', Dict [(''pip'', Lst [Str ''mlflow''])], Str ''pip'']),
         (''channels'', Lst [Str ''defaults''])] k)
    \<and> map_of env' ''dependencies'' = Some (Lst ([Str ''python=3.8''] @ Dict d' # [Str ''pip'']))
    \<and> map fst d' = [''pip'']
    \<and> (\<forall>k. k \<noteq> ''pip'' \<longrightarrow> map_of d' k = map_of [(''pip'', Lst [Str ''mlflow''])] k)
    \<and> map_of d' ''pip'' = Some (Lst [Str ''mlflow'', Str ''Pillow''])"
  using add_libraries_pillow [of
      "[(''name'', Str ''mlflow-env''),
         (''dependencies'', Lst [Str ''python=3.8'', Dict [(''pip'', Lst [Str ''mlflow''])], Str ''pip'']),
         (''channels'', Lst [Str ''defaults''])]"
      "[Str ''python=3.8'']" "[(''pip'', Lst [Str ''mlflow''])]" "[Str ''pip'']"]
  by simp

subsection \<open>Metric logging\<close>

lemma events_update [simp]:
  "events (s\<lparr>writer := Some evs\<rparr>) = evs"
  "events (s\<lparr>mlflow := cs\<rparr>) = events s"
  "events (s\<lparr>rng := g\<rparr>) = events s"
  "events (s\<lparr>model := m\<rparr>) = events s"
  "events (s\<lparr>grad := gr\<rparr>) = events s"
  "events (s\<lparr>momentum_buffer := b\<rparr>) = events s"
  "events (s\<lparr>files := fs\<rparr>) = events s"
  by (simp_all add: events_def)

text \<open>
  Claim C1, as amended.  For every call \<^verbatim>\<open>log_scalar(name, value, step)\<close> made while the
  event writer exists, the call returns, the event writer receives exactly
  \<^verbatim>\<open>add_scalar(name, value, step)\<close> and the tracking client receives exactly
  \<^verbatim>\<open>log_metric(name, value)\<close>: the same name and value at both sinks, the step index at
  the event writer only.
\<close>

theorem log_scalar_sinks:
  assumes "writer s = Some evs"
  shows "\<exists>s'. log_scalar name v step s = Done s'
     \<and> writer s' = Some (evs @ [Add_scalar name v step])
     \<and> mlflow s' = mlflow s @ [Log_metric name v None]
     \<and> local_metrics s' = local_metrics s @ [(name, v, Some step)]
     \<and> remote_metrics s' = remote_metrics s @ [(name, v, None)]"
  using assms
  by (simp add: log_scalar_def add_scalar_def log_metric_def local_metrics_def
      remote_metrics_def events_def)

theorem log_scalar_sinks_witness:
  "\<exists>s'. log_scalar ''train_loss'' (1/2) 7
           ((initial_state zero_params ())\<lparr>writer := Some []\<rparr>) = Done s'
     \<and> writer s' = Some [Add_scalar ''train_loss'' (1/2) 7]
     \<and> mlflow s' = [Log_metric ''train_loss'' (1/2) None]
     \<and> local_metrics s' = [(''train_loss'', 1/2, Some 7)]
     \<and> remote_metrics s' = [(''train_loss'', 1/2, None)]"
  using log_scalar_sinks [of "(initial_state zero_params ())\<lparr>writer := Some []\<rparr>" "[]"
      "''train_loss''" "1/2" 7]
  by (simp add: local_metrics_def remote_metrics_def events_def initial_state_def)

text \<open>
  The claim as stated fails: after \<^verbatim>\<open>log_scalar('train_loss', 0.5, 7)\<close> on fresh sinks
  the event writer holds the step index 7 and the tracking client holds none.
\<close>

theorem log_scalar_step_counterexample:
  "remote_metrics (state_of (log_scalar ''train_loss'' (1/2) 7
       ((initial_state zero_params ())\<lparr>writer := Some []\<rparr>)))
   \<noteq> local_metrics (state_of (log_scalar ''train_loss'' (1/2) 7
       ((initial_state zero_params ())\<lparr>writer := Some []\<rparr>)))"
  by (simp add: log_scalar_def add_scalar_def log_metric_def local_metrics_def
      remote_metrics_def events_def initial_state_def)

subsection \<open>Evaluation leaves the parameters alone\<close>

lemma log_scalar_cases:
  "log_scalar name v step s =
     (case writer s of
        None \<Rightarrow> Raised AttributeError s
      | Some evs \<Rightarrow> Done (s\<lparr>writer := Some (evs @ [Add_scalar name v step]),
                            mlflow := mlflow s @ [Log_metric name v None]\<rparr>))"
  by (simp add: log_scalar_def add_scalar_def log_metric_def split: option.splits)

lemma log_scalar_frame:
  "model (state_of (log_scalar name v step s)) = model s"
  "grad (state_of (log_scalar name v step s)) = grad s"
  "momentum_buffer (state_of (log_scalar name v step s)) = momentum_buffer s"
  "rng (state_of (log_scalar name v step s)) = rng s"
  "files (state_of (log_scalar name v step s)) = files s"
  by (simp_all add: log_scalar_cases split: option.splits)

lemma and_then_log_scalar_frame:
  "model (state_of (and_then (log_scalar n1 v1 st1 s) (log_scalar n2 v2 st2))) = model s"
  "grad (state_of (and_then (log_scalar n1 v1 st1 s) (log_scalar n2 v2 st2))) = grad s"
  "momentum_buffer (state_of (and_then (log_scalar n1 v1 st1 s) (log_scalar n2 v2 st2)))
     = momentum_buffer s"
  by (simp_all add: log_scalar_cases split: option.splits)

lemma train_batches_ignores_test_loader:
  "train_batches T (C\<lparr>test_loader := ld\<rparr>) epoch bs s = train_batches T C epoch bs s"
  by (induction T C epoch bs s rule: train_batches.induct)
     (simp_all add: Let_def split: prod.splits sum.splits result.splits)

text \<open>
  Claim C6.  Whatever the evaluation feed and whether \<^verbatim>\<open>test\<close> returns or raises, the
  parameter tensors of the model, the gradients and the optimizer's momentum buffers are
  the same after the call as before it; and \<^verbatim>\<open>train\<close>, the only place where parameters
  are updated, does not read the evaluation feed.  (\<^verbatim>\<open>model.eval()\<close> does set the mode
  flag of the module.)
\<close>

theorem test_leaves_parameters:
  "parameters (model (state_of (test T C epoch s))) = parameters (model s)
   \<and> grad (state_of (test T C epoch s)) = grad s
   \<and> momentum_buffer (state_of (test T C epoch s)) = momentum_buffer s
   \<and> train T (C\<lparr>test_loader := ld\<rparr>) epoch' s = train T C epoch' s"
  by (simp add: test_def train_def Let_def and_then_log_scalar_frame
      train_batches_ignores_test_loader split: prod.splits sum.splits)

subsection \<open>The data loader\<close>

lemma shuffle_length: "length (fst (shuffle T g xs)) = length xs"
proof (induction T g xs rule: shuffle.induct)
  case (1 T g xs)
  show ?case
  proof (cases "xs = []")
    case True
    then show ?thesis by (simp add: shuffle.simps)
  next
    case False
    define kg where "kg = randint T g (length xs)"
    define i where "i = fst kg mod length xs"
    from False have i: "i < length xs" by (simp add: i_def)
    have "length (fst (shuffle T (snd kg) (take i xs @ drop (Suc i) xs)))
        = length (take i xs @ drop (Suc i) xs)"
      using "1.IH" [OF False kg_def i_def] .
    with i False show ?thesis
      by (subst shuffle.simps) (simp add: Let_def kg_def [symmetric] i_def [symmetric])
  qed
qed

lemma batches_length: "length (batches bs xs) = (length xs + bs - 1) div bs"
  by (simp add: batches_def)

lemma sum_min_upt:
  "(\<Sum>i\<leftarrow>[0..<m]. min bs (n - i * bs)) = min (m * bs) (n::nat)"
proof (induction m)
  case 0
  show ?case by simp
next
  case (Suc m)
  show ?case
  proof (cases "n \<le> m * bs")
    case True
    with Suc show ?thesis by simp
  next
    case False
    then have "min (m * bs) n = m * bs" "min (bs + m * bs) n = m * bs + min bs (n - m * bs)"
      by (auto simp: min_def)
    with Suc show ?thesis by simp
  qed
qed

lemma batches_total: "sum_list (map length (batches bs xs)) \<le> length xs"
proof -
  have "map length (batches bs xs)
      = map (\<lambda>i. min bs (length xs - i * bs)) [0..<(length xs + bs - 1) div bs]"
    by (simp add: batches_def comp_def min.commute)
  then show ?thesis by (simp add: sum_min_upt)
qed

lemma iter_loader_length:
  "length (fst (iter_loader T ld g)) = len_loader ld"
proof -
  obtain xs g1 where sh: "shuffle T g (dataset ld) = (xs, g1)" by (cases "shuffle T g (dataset ld)")
  with shuffle_length [of T g "dataset ld"] have "length xs = length (dataset ld)" by simp
  with sh show ?thesis by (simp add: iter_loader_def len_loader_def batches_length)
qed

lemma iter_loader_total:
  "(\<Sum>b\<leftarrow>fst (iter_loader T ld g). length (snd b)) \<le> length (dataset ld)"
proof -
  obtain xs g1 where sh: "shuffle T g (dataset ld) = (xs, g1)" by (cases "shuffle T g (dataset ld)")
  with shuffle_length [of T g "dataset ld"] have len: "length xs = length (dataset ld)" by simp
  have "(\<Sum>b\<leftarrow>map collate (batches (loader_batch_size ld) xs). length (snd b))
      = sum_list (map length (batches (loader_batch_size ld) xs))"
    by (simp add: comp_def collate_def)
  also have "\<dots> \<le> length xs" by (rule batches_total)
  finally show ?thesis using sh len by (simp add: iter_loader_def)
qed

subsection \<open>The evaluation metrics\<close>

lemma exp_le_sum_list:
  "row \<in> set x \<Longrightarrow> exp (row ! c) \<le> (\<Sum>r\<leftarrow>x. exp (r ! c :: real))"
proof (induction x)
  case Nil
  then show ?case by simp
next
  case (Cons a x)
  have nonneg: "0 \<le> (\<Sum>r\<leftarrow>x. exp (r ! c))"
    by (rule sum_list_nonneg) auto
  show ?case
  proof (cases "row = a")
    case True
    with nonneg show ?thesis by simp
  next
    case False
    with Cons have "exp (row ! c) \<le> (\<Sum>r\<leftarrow>x. exp (r ! c))" by simp
    moreover have "0 \<le> exp (a ! c)" by simp
    ultimately show ?thesis by (simp add: add_increasing)
  qed
qed

lemma log_softmax_dim0_nonpos:
  assumes "log_softmax x 0 = Inr out" and "row \<in> set out" and "v \<in> set row"
  shows "v \<le> 0"
proof -
  from assms(1) have out: "out = map (\<lambda>row. map (\<lambda>c. row ! c - ln (\<Sum>r\<leftarrow>x. exp (r ! c))) [0..<length row]) x"
    by (simp add: log_softmax_def)
  with assms(2) obtain r where r: "r \<in> set x"
    and row: "row = map (\<lambda>c. r ! c - ln (\<Sum>r\<leftarrow>x. exp (r ! c))) [0..<length r]"
    by auto
  with assms(3) obtain c where c: "c < length r" and v: "v = r ! c - ln (\<Sum>r\<leftarrow>x. exp (r ! c))"
    by auto
  have "exp (r ! c) \<le> (\<Sum>r\<leftarrow>x. exp (r ! c))" using r by (rule exp_le_sum_list)
  then have "ln (exp (r ! c)) \<le> ln (\<Sum>r\<leftarrow>x. exp (r ! c))"
    by (subst ln_le_cancel_iff) (auto intro: less_le_trans [of 0 "exp (r ! c)"])
  with v show ?thesis by simp
qed

lemma forward_output:
  "forward T m g x = (Inr out, g') \<Longrightarrow> \<exists>z. log_softmax z 0 = Inr out"
  by (auto simp: forward_def Let_def split: sum.splits prod.splits if_splits)

lemma forward_nonpos:
  assumes "forward T m g x = (Inr out, g')" and "row \<in> set out" and "v \<in> set row"
  shows "v \<le> 0"
  using forward_output [OF assms(1)] log_softmax_dim0_nonpos assms(2,3) by blast

lemma nll_loss_nonneg:
  assumes "nll_loss out target red = Inr l"
    and "\<And>row v. row \<in> set out \<Longrightarrow> v \<in> set row \<Longrightarrow> v \<le> 0"
  shows "0 \<le> l"
proof -
  from assms(1) have len: "length out = length target"
    and ok: "list_all (\<lambda>(row, t). t < length row) (zip out target)"
    and l: "l = (case red of Sum \<Rightarrow> (\<Sum>(row, t)\<leftarrow>zip out target. - (row ! t))
                  | Mean \<Rightarrow> (\<Sum>(row, t)\<leftarrow>zip out target. - (row ! t)) / real (length target))"
    by (auto simp: nll_loss_def Let_def split: if_splits)
  have "0 \<le> (\<Sum>(row, t)\<leftarrow>zip out target. - (row ! t))"
  proof (rule sum_list_nonneg)
    fix y assume "y \<in> set (map (\<lambda>(row, t). - (row ! t)) (zip out target))"
    then obtain row t where rt: "(row, t) \<in> set (zip out target)" and y: "y = - (row ! t)"
      by auto
    from rt ok have "t < length row" by (auto simp: list_all_iff)
    then have "row ! t \<in> set row" by simp
    moreover from rt have "row \<in> set out" by (rule set_zip_leftD)
    ultimately have "row ! t \<le> 0" using assms(2) by blast
    with y show "0 \<le> y" by simp
  qed
  with l show ?thesis by (cases red) simp_all
qed

lemma count_eq_le: "count_eq pred target \<le> length target"
proof -
  have "count_eq pred target \<le> length (zip pred target)"
    unfolding count_eq_def by (rule length_filter_le)
  then show ?thesis by simp
qed

lemma test_batches_bounds:
  assumes "test_batches T m bs (test_loss, correct) g = (Inr (test_loss', correct'), g')"
  shows "test_loss \<le> test_loss' \<and> correct' \<le> correct + (\<Sum>b\<leftarrow>bs. length (snd b))"
  using assms
proof (induction bs arbitrary: test_loss correct g)
  case Nil
  then show ?case by simp
next
  case (Cons b bs)
  obtain data target where b: "b = (data, target)" by (cases b)
  from Cons.prems b obtain outp g1 l pred where
    fw: "forward T m g data = (Inr outp, g1)"
    and nl: "nll_loss outp target Sum = Inr l"
    and rest: "test_batches T m bs (test_loss + l, correct + count_eq pred target) g1
                 = (Inr (test_loss', correct'), g')"
    by (auto split: prod.splits sum.splits)
  from nl forward_nonpos [OF fw] have "0 \<le> l" by (rule nll_loss_nonneg)
  moreover from Cons.IH [OF rest]
  have "test_loss + l \<le> test_loss'"
    "correct' \<le> correct + count_eq pred target + (\<Sum>b\<leftarrow>bs. length (snd b))" by simp_all
  moreover have "count_eq pred target \<le> length target" by (rule count_eq_le)
  ultimately show ?case using b by simp
qed

lemma test_batches_eval_rng:
  "\<not> training m \<Longrightarrow> snd (test_batches T m bs acc g) = g"
proof (induction bs arbitrary: acc g)
  case Nil
  then show ?case by simp
next
  case (Cons b bs)
  obtain data target where b: "b = (data, target)" by (cases b)
  obtain tl cr where acc: "acc = (tl, cr)" by (cases acc)
  from Cons.prems have fw: "snd (forward T m g data) = g"
    by (simp add: forward_def Let_def split: sum.splits)
  with Cons show ?case unfolding b acc
    by (auto split: prod.splits sum.splits)
qed

lemma test_raises_emits_nothing:
  assumes "test T C epoch s = Raised e s'"
  shows "writer s' = writer s \<and> mlflow s' = mlflow s"
proof -
  have two: "and_then (log_scalar n1 v1 st s0) (log_scalar n2 v2 st) = Raised e s'
      \<Longrightarrow> writer s' = writer s0 \<and> mlflow s' = mlflow s0"
    for n1 v1 n2 v2 st and s0 :: "'a state"
    by (cases "writer s0") (auto simp: log_scalar_cases)
  define s1 where "s1 = s\<lparr>model := (model s)\<lparr>training := False\<rparr>\<rparr>"
  obtain bs g1 where it: "iter_loader T (test_loader C) (rng s1) = (bs, g1)"
    by (cases "iter_loader T (test_loader C) (rng s1)")
  obtain r g2 where tb: "test_batches T (model s1) bs (0, 0) g1 = (r, g2)"
    by (cases "test_batches T (model s1) bs (0, 0) g1")
  show ?thesis
  proof (cases r)
    case (Inl e')
    with assms it tb show ?thesis by (auto simp: test_def s1_def)
  next
    case (Inr acc)
    obtain tl cr where acc: "acc = (tl, cr)" by (cases acc)
    show ?thesis
    proof (cases "length (dataset (test_loader C)) = 0")
      case True
      with assms it tb Inr acc show ?thesis by (auto simp: test_def s1_def)
    next
      case False
      with assms it tb Inr acc have
        "and_then (log_scalar ''test_loss'' (tl / real (length (dataset (test_loader C))))
                     ((epoch + 1) * int (len_loader (train_loader C))) (s1\<lparr>rng := g2\<rparr>))
           (log_scalar ''test_accuracy'' (100 * real cr / real (length (dataset (test_loader C))))
                     ((epoch + 1) * int (len_loader (train_loader C)))) = Raised e s'"
        by (simp add: test_def s1_def Let_def)
      from two [OF this] show ?thesis by (simp add: s1_def)
    qed
  qed
qed

text \<open>
  Claim C9.  Whenever \<^verbatim>\<open>test\<close> returns, it has emitted exactly the scalars
  \<^verbatim>\<open>test_loss\<close> and \<^verbatim>\<open>test_accuracy\<close> (to both sinks); the accuracy
  \<open>100 * correct / len(dataset)\<close> lies in \<open>[0, 100]\<close> and the mean loss, the summed
  negative log-likelihood divided by \<open>len(dataset)\<close>, is at least 0.  (When \<^verbatim>\<open>test\<close>
  raises, on an empty dataset for one, it emits nothing.)
\<close>

theorem test_metric_ranges:
  assumes "test T C epoch s = Done s'"
  shows "\<exists>evs test_loss test_accuracy step.
      writer s = Some evs
    \<and> writer s' = Some (evs @ [Add_scalar ''test_loss'' test_loss step,
                                Add_scalar ''test_accuracy'' test_accuracy step])
    \<and> mlflow s' = mlflow s @ [Log_metric ''test_loss'' test_loss None,
                               Log_metric ''test_accuracy'' test_accuracy None]
    \<and> 0 \<le> test_loss \<and> 0 \<le> test_accuracy \<and> test_accuracy \<le> 100"
proof -
  define s1 where "s1 = s\<lparr>model := (model s)\<lparr>training := False\<rparr>\<rparr>"
  obtain bs g1 where it: "iter_loader T (test_loader C) (rng s1) = (bs, g1)"
    by (cases "iter_loader T (test_loader C) (rng s1)")
  define n where "n = length (dataset (test_loader C))"
  from assms it obtain tl cr g2 where
    tb: "test_batches T (model s1) bs (0, 0) g1 = (Inr (tl, cr), g2)"
    and n: "n \<noteq> 0"
    and run: "and_then (log_scalar ''test_loss'' (tl / real n)
                 ((epoch + 1) * int (len_loader (train_loader C))) (s1\<lparr>rng := g2\<rparr>))
               (log_scalar ''test_accuracy'' (100 * real cr / real n)
                 ((epoch + 1) * int (len_loader (train_loader C)))) = Done s'"
    by (auto simp: test_def Let_def s1_def n_def split: prod.splits sum.splits if_splits)
  from test_batches_bounds [OF tb] have tl: "0 \<le> tl" and "cr \<le> (\<Sum>b\<leftarrow>bs. length (snd b))"
    by simp_all
  moreover from iter_loader_total [of T "test_loader C" "rng s1"] it
  have "(\<Sum>b\<leftarrow>bs. length (snd b)) \<le> n" by (simp add: n_def)
  ultimately have cr: "cr \<le> n" by simp
  from run obtain evs where w: "writer s = Some evs"
    by (cases "writer s") (auto simp: log_scalar_cases s1_def)
  from run w have
    "writer s' = Some (evs @ [Add_scalar ''test_loss'' (tl / real n)
                                ((epoch + 1) * int (len_loader (train_loader C))),
                              Add_scalar ''test_accuracy'' (100 * real cr / real n)
                                ((epoch + 1) * int (len_loader (train_loader C)))])"
    "mlflow s' = mlflow s @ [Log_metric ''test_loss'' (tl / real n) None,
                             Log_metric ''test_accuracy'' (100 * real cr / real n) None]"
    by (auto simp: log_scalar_cases s1_def)
  moreover from tl have "0 \<le> tl / real n" by simp
  moreover have "0 \<le> 100 * real cr / real n" by simp
  moreover from cr n have "100 * real cr / real n \<le> 100" by (simp add: field_simps)
  ultimately show ?thesis using w by blast
qed

subsection \<open>The library instance on blank images\<close>

lemma map_const_upt: "map (\<lambda>_. c) [0..<n] = replicate n c"
  by (induction n) (simp_all add: replicate_append_same)

lemma sum_list_upt_zero:
  "(\<And>k. k < n \<Longrightarrow> f k = 0) \<Longrightarrow> (\<Sum>k\<leftarrow>[0..<n]. f k) = (0::real)"
  by (simp add: interv_sum_list_conv_sum_set_nat)

lemma map_upt_const:
  "(\<And>k. k < n \<Longrightarrow> f k = c) \<Longrightarrow> map f [0..<n] = replicate n c"
  by (rule nth_equalityI) simp_all

lemma conv2d_ref_zero:
  assumes "0 < n_out" "0 < C" "0 < kh" "0 < H"
  shows "conv2d_ref (replicate n_out (replicate C (replicate kh (replicate kw 0)))) (replicate n_out b)
           (replicate N (replicate C (replicate H (replicate W v))))
         = replicate N (replicate n_out (replicate (H + 1 - kh) (replicate (W + 1 - kw) b)))"
proof -
  let ?w = "replicate n_out (replicate C (replicate kh (replicate kw (0::real))))"
  let ?img = "replicate C (replicate H (replicate W v))"
  have cell: "replicate n_out b ! oc +
                  (\<Sum>c\<leftarrow>[0..<C]. \<Sum>di\<leftarrow>[0..<kh]. \<Sum>dj\<leftarrow>[0..<kw].
                      ?w ! oc ! c ! di ! dj * ?img ! c ! (i + di) ! (j + dj)) = b"
    if "oc < n_out" for oc i j
  proof -
    have "(\<Sum>c\<leftarrow>[0..<C]. \<Sum>di\<leftarrow>[0..<kh]. \<Sum>dj\<leftarrow>[0..<kw].
                      ?w ! oc ! c ! di ! dj * ?img ! c ! (i + di) ! (j + dj)) = 0"
      using that by (intro sum_list_upt_zero) simp
    with that show ?thesis by simp
  qed
  have img: "map (\<lambda>oc. map (\<lambda>i. map (\<lambda>j. replicate n_out b ! oc +
                  (\<Sum>c\<leftarrow>[0..<C]. \<Sum>di\<leftarrow>[0..<kh]. \<Sum>dj\<leftarrow>[0..<kw].
                      ?w ! oc ! c ! di ! dj * ?img ! c ! (i + di) ! (j + dj)))
              [0..<Suc W - kw]) [0..<Suc H - kh]) [0..<n_out]
            = replicate n_out (replicate (Suc H - kh) (replicate (Suc W - kw) b))"
    by (intro map_upt_const) (rule cell)
  from assms show ?thesis
    by (simp add: conv2d_ref_def Let_def img del: upt_Suc replicate_Suc)
qed

lemma pool_index: "0 < k \<Longrightarrow> i < H div k \<Longrightarrow> di < k \<Longrightarrow> k * i + di < (H::nat)"
proof -
  assume k: "0 < k" and i: "i < H div k" and di: "di < k"
  from i have "Suc i \<le> H div k" by simp
  then have "k * Suc i \<le> k * (H div k)" by (rule mult_le_mono2)
  also have "\<dots> \<le> H" by simp
  finally show ?thesis using di by simp
qed

lemma max_pool2d_ref_const:
  assumes "0 < k" "0 < H"
  shows "max_pool2d_ref (replicate N (replicate C (replicate H (replicate W v)))) k
       = replicate N (replicate C (replicate (H div k) (replicate (W div k) v)))"
proof -
  let ?ch = "replicate H (replicate W v)"
  have cell: "Max (set (concat (map (\<lambda>di. map (\<lambda>dj. ?ch ! (k * i + di) ! (k * j + dj)) [0..<k]) [0..<k]))) = v"
    if "i < H div k" "j < W div k" for i j
  proof -
    have "map (\<lambda>di. map (\<lambda>dj. ?ch ! (k * i + di) ! (k * j + dj)) [0..<k]) [0..<k]
        = replicate k (replicate k v)"
      using that assms by (intro map_upt_const) (simp add: pool_index)
    with assms show ?thesis by simp
  qed
  have chan: "map (\<lambda>i. map (\<lambda>j. Max (set (concat (map (\<lambda>di. map (\<lambda>dj. ?ch ! (k * i + di) ! (k * j + dj)) [0..<k]) [0..<k]))))
            [0..<W div k]) [0..<H div k] = replicate (H div k) (replicate (W div k) v)"
    by (intro map_upt_const) (rule cell)
  from assms have "length ?ch = H" "length (?ch ! 0) = W" by simp_all
  then show ?thesis
    unfolding max_pool2d_ref_def map_replicate by (simp only: chan)
qed

lemma linear_ref_zero:
  assumes "length bias = n_out"
  shows "linear_ref (replicate n_out (replicate n_in 0)) bias (replicate N (replicate n_in v))
       = replicate N bias"
proof -
  have cell: "bias ! oc + (\<Sum>k\<leftarrow>[0..<n_in]. replicate n_out (replicate n_in 0) ! oc ! k
                 * replicate n_in v ! k) = bias ! oc" if "oc < n_out" for oc
  proof -
    have "(\<Sum>k\<leftarrow>[0..<n_in]. replicate n_out (replicate n_in 0) ! oc ! k * replicate n_in v ! k) = 0"
      using that by (intro sum_list_upt_zero) simp
    then show ?thesis by simp
  qed
  have "map (\<lambda>oc. bias ! oc + (\<Sum>k\<leftarrow>[0..<n_in]. replicate n_out (replicate n_in 0) ! oc ! k
                 * replicate n_in v ! k)) [0..<n_out] = bias"
  proof (rule nth_equalityI)
    show "length (map (\<lambda>oc. bias ! oc + (\<Sum>k\<leftarrow>[0..<n_in]. replicate n_out (replicate n_in 0) ! oc ! k
                 * replicate n_in v ! k)) [0..<n_out]) = length bias"
      using assms by simp
  next
    fix i
    assume "i < length (map (\<lambda>oc. bias ! oc + (\<Sum>k\<leftarrow>[0..<n_in]. replicate n_out (replicate n_in 0) ! oc ! k
                 * replicate n_in v ! k)) [0..<n_out])"
    then have i: "i < n_out" by simp
    then have "map (\<lambda>oc. bias ! oc + (\<Sum>k\<leftarrow>[0..<n_in]. replicate n_out (replicate n_in 0) ! oc ! k
                 * replicate n_in v ! k)) [0..<n_out] ! i
        = bias ! i + (\<Sum>k\<leftarrow>[0..<n_in]. replicate n_out (replicate n_in 0) ! i ! k
                 * replicate n_in v ! k)"
      by (simp del: upt_Suc)
    also have "\<dots> = bias ! i" using i by (rule cell)
    finally show "map (\<lambda>oc. bias ! oc + (\<Sum>k\<leftarrow>[0..<n_in]. replicate n_out (replicate n_in 0) ! oc ! k
                 * replicate n_in v ! k)) [0..<n_out] ! i = bias ! i" .
  qed
  moreover have "length (replicate n_in v) = n_in" "length (replicate n_out (replicate n_in (0::real))) = n_out"
    by simp_all
  ultimately show ?thesis
    unfolding linear_ref_def map_replicate by (simp only:)
qed

lemma concat_replicate_replicate:
  "concat (replicate n (replicate m x)) = replicate (n * m) x"
  by (induction n) (simp_all add: replicate_add)

lemma enumerate_replicate_map:
  "map f (enumerate 0 (replicate n x)) = map (\<lambda>i. f (i, x)) [0..<n]"
  by (rule nth_equalityI) (simp_all add: nth_enumerate_eq)

lemma dropout2d_ref_zero:
  "dropout2d_ref g (replicate N (replicate C (replicate H (replicate W 0))))
     = (replicate N (replicate C (replicate H (replicate W 0))), \<lambda>i. g (i + N * C))"
proof -
  have "map (\<lambda>(n, img). map (\<lambda>(c, ch). if g (n * length img + c) then map (map (\<lambda>v. 2 * v)) ch
                                         else map (map (\<lambda>v. 0)) ch)
                           (enumerate 0 img))
          (enumerate 0 (replicate N (replicate C (replicate H (replicate W (0::real))))))
      = replicate N (replicate C (replicate H (replicate W 0)))"
    by (simp add: enumerate_replicate_map map_upt_const del: upt_Suc replicate_Suc)
  then show ?thesis
    by (simp add: dropout2d_ref_def concat_replicate_replicate del: upt_Suc replicate_Suc)
qed

lemma view_zero:
  assumes "0 < C * H * W"
  shows "view (replicate N (replicate C (replicate H (replicate W v)))) (C * H * W)
     = Inr (replicate N (replicate (C * H * W) v))"
proof -
  have "map (\<lambda>i. take (C * H * W) (drop (i * (C * H * W)) (replicate (N * (C * H * W)) v))) [0..<N]
      = replicate N (replicate (C * H * W) v)"
  proof (intro map_upt_const)
    fix k assume "k < N"
    then have "Suc k * (C * H * W) \<le> N * (C * H * W)" by (intro mult_le_mono1) simp
    then have "C * H * W \<le> N * (C * H * W) - k * (C * H * W)" by simp
    then show "take (C * H * W) (drop (k * (C * H * W)) (replicate (N * (C * H * W)) v))
        = replicate (C * H * W) v"
      by (simp add: min_def)
  qed
  moreover have "concat (concat (concat (replicate N (replicate C (replicate H (replicate W v))))))
      = replicate (N * (C * H * W)) v"
    by (simp add: concat_replicate_replicate mult.assoc del: replicate_Suc)
  ultimately show ?thesis using assms
    by (simp add: view_def Let_def del: replicate_Suc upt_Suc)
qed

lemma relu_0 [simp]: "relu 0 = 0"
  by (simp add: relu_def)

lemma forward_demo:
  assumes c1w: "conv1_weight (parameters m) = replicate 10 (replicate 1 (replicate 5 (replicate 5 0)))"
    and c1b: "conv1_bias (parameters m) = replicate 10 0"
    and c2w: "conv2_weight (parameters m) = replicate 20 (replicate 10 (replicate 5 (replicate 5 0)))"
    and c2b: "conv2_bias (parameters m) = replicate 20 0"
    and f1w: "fc1_weight (parameters m) = replicate 50 (replicate 320 0)"
    and f1b: "length (fc1_bias (parameters m)) = 50"
  shows "forward demo_lib m g (blank_batch N) =
     (if training m
      then (log_softmax (linear_ref (fc2_weight (parameters m)) (fc2_bias (parameters m))
                 (fst (dropout_ref (\<lambda>i. g (i + N * 20))
                        (replicate N (map relu (fc1_bias (parameters m))))))) 0,
            snd (dropout_ref (\<lambda>i. g (i + N * 20))
                        (replicate N (map relu (fc1_bias (parameters m))))))
      else (log_softmax (linear_ref (fc2_weight (parameters m)) (fc2_bias (parameters m))
                 (replicate N (map relu (fc1_bias (parameters m))))) 0, g))"
proof -
  have s1: "conv2d_ref (replicate 10 (replicate 1 (replicate 5 (replicate 5 0)))) (replicate 10 0)
              (blank_batch N) = replicate N (replicate 10 (replicate 24 (replicate 24 0)))"
    unfolding blank_batch_def by (subst conv2d_ref_zero) simp_all
  have s1': "conv2d_ref (replicate 10 (replicate (Suc 0) (replicate 5 (replicate 5 0)))) (replicate 10 0)
              (blank_batch N) = replicate N (replicate 10 (replicate 24 (replicate 24 0)))"
    using s1 by (simp only: One_nat_def)
  have s2: "max_pool2d_ref (replicate N (replicate 10 (replicate 24 (replicate 24 0)))) 2
              = replicate N (replicate 10 (replicate 12 (replicate 12 (0::real))))"
    by (subst max_pool2d_ref_const) simp_all
  have s3: "conv2d_ref (replicate 20 (replicate 10 (replicate 5 (replicate 5 0)))) (replicate 20 0)
              (replicate N (replicate 10 (replicate 12 (replicate 12 0))))
            = replicate N (replicate 20 (replicate 8 (replicate 8 0)))"
    by (subst conv2d_ref_zero) simp_all
  have s4: "dropout2d_ref g (replicate N (replicate 20 (replicate 8 (replicate 8 0))))
            = (replicate N (replicate 20 (replicate 8 (replicate 8 0))), \<lambda>i. g (i + N * 20))"
    by (rule dropout2d_ref_zero)
  have s5: "max_pool2d_ref (replicate N (replicate 20 (replicate 8 (replicate 8 0)))) 2
              = replicate N (replicate 20 (replicate 4 (replicate 4 (0::real))))"
    by (subst max_pool2d_ref_const) simp_all
  have s6: "view (replicate N (replicate 20 (replicate 4 (replicate 4 (0::real))))) 320
              = Inr (replicate N (replicate 320 0))"
    using view_zero [of 20 4 4 N "0::real"] by simp
  have s7: "linear_ref (replicate 50 (replicate 320 0)) (fc1_bias (parameters m))
              (replicate N (replicate 320 0)) = replicate N (fc1_bias (parameters m))"
    using f1b by (rule linear_ref_zero)
  show ?thesis
    by (simp add: forward_def demo_lib_def Let_def c1w c1b c2w c2b f1w s1' s2 s3 s4 s5 s6 s7
        split: prod.splits del: replicate_Suc)
qed

subsection \<open>The step counters\<close>

lemma log_scalar_events:
  "events (state_of (log_scalar name v step s))
     = events s @ (if writer s = None then [] else [Add_scalar name v step])"
  by (simp add: log_scalar_cases events_def split: option.splits)

lemma log_scalar_writer:
  "(writer (state_of (log_scalar name v step s)) = None) = (writer s = None)"
  by (simp add: log_scalar_cases split: option.splits)

lemma log_scalar_Done:
  "log_scalar name v step s = Done s' \<Longrightarrow> writer s \<noteq> None"
  by (simp add: log_scalar_cases split: option.splits)

lemma add_histograms_Some:
  "writer s = Some evs \<Longrightarrow>
   add_histograms hs step s
     = Done (s\<lparr>writer := Some (evs @ map (\<lambda>(name, vs). Add_histogram name vs step) hs)\<rparr>)"
proof (induction hs arbitrary: s evs)
  case Nil
  then show ?case by simp
next
  case (Cons h hs)
  obtain name vs where h: "h = (name, vs)" by (cases h)
  let ?s1 = "s\<lparr>writer := Some (evs @ [Add_histogram name vs step])\<rparr>"
  have "add_histograms hs step ?s1
      = Done (?s1\<lparr>writer := Some ((evs @ [Add_histogram name vs step])
                 @ map (\<lambda>(name, vs). Add_histogram name vs step) hs)\<rparr>)"
    by (rule Cons.IH) simp
  with Cons.prems h show ?case by (simp add: add_histogram_def)
qed

lemma add_histograms_None:
  "writer s = None \<Longrightarrow> state_of (add_histograms hs step s) = s"
  by (cases hs) (auto simp: add_histogram_def)

lemma log_weights_events:
  "events (state_of (log_weights step s))
     = events s @ (if writer s = None then []
                   else map (\<lambda>(name, vs). Add_histogram name vs step)
                          (weight_histograms (parameters (model s))))"
proof (cases "writer s")
  case None
  then show ?thesis by (simp add: log_weights_def add_histograms_None)
next
  case (Some evs)
  then show ?thesis by (simp add: log_weights_def add_histograms_Some events_def)
qed

lemma log_weights_frame:
  "model (state_of (log_weights step s)) = model s"
  "(writer (state_of (log_weights step s)) = None) = (writer s = None)"
  by (cases "writer s"; simp add: log_weights_def add_histograms_None add_histograms_Some)+

lemma train_batches_step:
  "\<exists>s' pre. events s' = events s @ pre \<and> list_all (\<lambda>e. event_step e = (epoch * int (len_loader (train_loader C)) + int i)) pre
     \<and> ((\<exists>e. train_batches T C epoch ((i, data, target) # rest) s = Raised e s')
        \<or> train_batches T C epoch ((i, data, target) # rest) s = train_batches T C epoch rest s')"
proof -
  let ?st = "epoch * int (len_loader (train_loader C)) + int i"
  let ?P = "\<lambda>s' pre. events s' = events s @ pre \<and> list_all (\<lambda>e. event_step e = ?st) pre
     \<and> ((\<exists>e. train_batches T C epoch ((i, data, target) # rest) s = Raised e s')
        \<or> train_batches T C epoch ((i, data, target) # rest) s = train_batches T C epoch rest s')"
  define s1 where "s1 = s\<lparr>grad := None\<rparr>"
  obtain r g1 where fw: "forward T (model s1) (rng s1) data = (r, g1)"
    by (cases "forward T (model s1) (rng s1) data")
  show ?thesis
  proof (cases r)
    case (Inl e)
    with fw have "?P (s1\<lparr>rng := g1\<rparr>) []"
      by (simp add: s1_def Let_def)
    then show ?thesis by blast
  next
    case (Inr outp)
    note out = this
    show ?thesis
    proof (cases "nll_loss outp target Mean")
      case (Inl e)
      with fw out have "?P (s1\<lparr>rng := g1\<rparr>) []"
        by (simp add: s1_def Let_def)
      then show ?thesis by blast
    next
      case (Inr loss)
      define gr where "gr = backward T (parameters (model s1)) (rng s1) data target"
      define s2 where "s2 = s1\<lparr>rng := g1, grad := Some gr\<rparr>"
      define pb where "pb = sgd_step T (lr (args C)) (momentum (args C)) gr
                              (parameters (model s2), momentum_buffer s2)"
      define s3 where "s3 = s2\<lparr>model := (model s2)\<lparr>parameters := fst pb\<rparr>,
                               momentum_buffer := snd pb\<rparr>"
      have ev3: "events s3 = events s" by (simp add: s3_def s2_def s1_def)
      have unfold: "train_batches T C epoch ((i, data, target) # rest) s =
        (if log_interval (args C) = 0 then Raised ZeroDivisionError s3
         else if int i mod log_interval (args C) = 0 then
           (case log_scalar ''train_loss'' loss ?st s3 of
              Raised e s4 \<Rightarrow> Raised e s4
            | Done s4 \<Rightarrow>
                (case log_weights ?st s4 of
                   Raised e s5 \<Rightarrow> Raised e s5
                 | Done s5 \<Rightarrow> train_batches T C epoch rest s5))
         else train_batches T C epoch rest s3)"
        using fw out Inr
        by (simp add: Let_def s1_def [symmetric] gr_def [symmetric] s2_def [symmetric]
            pb_def [symmetric] s3_def [symmetric])
      show ?thesis
      proof (cases "log_interval (args C) = 0")
        case True
        with unfold ev3 have "?P s3 []" by simp
        then show ?thesis by blast
      next
        case li: False
        show ?thesis
        proof (cases "int i mod log_interval (args C) = 0")
          case False
          with unfold li ev3 have "?P s3 []" by simp
          then show ?thesis by blast
        next
          case True
          define r4 where "r4 = log_scalar ''train_loss'' loss ?st s3"
          define s4 where "s4 = state_of r4"
          have ev4: "events s4 = events s @ (if writer s3 = None then [] else [Add_scalar ''train_loss'' loss ?st])"
            unfolding s4_def r4_def by (simp add: log_scalar_events ev3)
          show ?thesis
          proof (cases r4)
            case (Raised e s4')
            then have "s4' = s4" by (simp add: s4_def)
            with Raised unfold li True ev4 have
              "?P s4 (if writer s3 = None then [] else [Add_scalar ''train_loss'' loss ?st])"
              by (simp add: r4_def [symmetric])
            then show ?thesis by blast
          next
            case (Done s4')
            then have s4': "s4' = s4" by (simp add: s4_def)
            define r5 where "r5 = log_weights ?st s4"
            define s5 where "s5 = state_of r5"
            let ?pre = "(if writer s3 = None then [] else [Add_scalar ''train_loss'' loss ?st])
                        @ (if writer s4 = None then []
                           else map (\<lambda>(name, vs). Add_histogram name vs ?st)
                                  (weight_histograms (parameters (model s4))))"
            have ev5: "events s5 = events s @ ?pre"
              unfolding s5_def r5_def by (simp add: log_weights_events ev4)
            have st: "list_all (\<lambda>e. event_step e = ?st) ?pre"
              by (auto simp: list_all_iff)
            have "(\<exists>e. train_batches T C epoch ((i, data, target) # rest) s = Raised e s5)
                \<or> train_batches T C epoch ((i, data, target) # rest) s
                    = train_batches T C epoch rest s5"
              using unfold li True Done s4'
              by (cases r5) (simp_all add: r4_def [symmetric] r5_def [symmetric] s5_def)
            with ev5 st show ?thesis by blast
          qed
        qed
      qed
    qed
  qed
qed


lemma sorted_const: "\<forall>e\<in>set xs. f e = (c::int) \<Longrightarrow> sorted (map f xs)"
  by (induction xs) auto

lemma train_batches_events:
  "\<exists>new. events (state_of (train_batches T C epoch (enumerate n bs) s)) = events s @ new
     \<and> sorted (map event_step new)
     \<and> (\<forall>e\<in>set new. epoch * int (len_loader (train_loader C)) + int n \<le> event_step e
           \<and> event_step e < epoch * int (len_loader (train_loader C)) + int n + int (length bs))"
proof (induction bs arbitrary: n s)
  case Nil
  show ?case by simp
next
  case (Cons b bs)
  let ?L = "int (len_loader (train_loader C))"
  obtain data target where b: "b = (data, target)" by (cases b)
  from train_batches_step [where s = s and epoch = epoch and C = C and i = n and T = T
      and data = data and target = target and rest = "enumerate (Suc n) bs"]
  obtain s' pre where ev: "events s' = events s @ pre"
    and pre: "list_all (\<lambda>e. event_step e = (epoch * ?L + int n)) pre"
    and alt: "(\<exists>e. train_batches T C epoch ((n, data, target) # enumerate (Suc n) bs) s = Raised e s')
        \<or> train_batches T C epoch ((n, data, target) # enumerate (Suc n) bs) s
            = train_batches T C epoch (enumerate (Suc n) bs) s'"
    by blast
  from pre have pre': "\<forall>e\<in>set pre. event_step e = epoch * ?L + int n"
    by (simp add: list_all_iff)
  then have sp: "sorted (map event_step pre)" by (rule sorted_const)
  from alt show ?case
  proof
    assume "\<exists>e. train_batches T C epoch ((n, data, target) # enumerate (Suc n) bs) s = Raised e s'"
    then have "state_of (train_batches T C epoch (enumerate n (b # bs)) s) = s'"
      using b by auto
    with ev sp pre' show ?thesis by auto
  next
    assume cont: "train_batches T C epoch ((n, data, target) # enumerate (Suc n) bs) s
            = train_batches T C epoch (enumerate (Suc n) bs) s'"
    from Cons.IH [of "Suc n" s'] obtain new where
      new: "events (state_of (train_batches T C epoch (enumerate (Suc n) bs) s')) = events s' @ new"
      and sn: "sorted (map event_step new)"
      and bn: "\<forall>e\<in>set new. epoch * ?L + int (Suc n) \<le> event_step e
           \<and> event_step e < epoch * ?L + int (Suc n) + int (length bs)"
      by blast
    from cont new ev b
    have "events (state_of (train_batches T C epoch (enumerate n (b # bs)) s)) = events s @ (pre @ new)"
      by simp
    moreover from sp sn pre' bn have "sorted (map event_step (pre @ new))"
      by (auto simp: sorted_append)
    moreover from pre' bn have "\<forall>e\<in>set (pre @ new). epoch * ?L + int n \<le> event_step e
           \<and> event_step e < epoch * ?L + int n + int (length (b # bs))"
      by auto
    ultimately show ?thesis by blast
  qed
qed

lemma train_events:
  "\<exists>new. events (state_of (train T C epoch s)) = events s @ new
     \<and> sorted (map event_step new)
     \<and> (\<forall>e\<in>set new. epoch * int (len_loader (train_loader C)) \<le> event_step e
           \<and> event_step e < (epoch + 1) * int (len_loader (train_loader C)))"
proof -
  define s1 where "s1 = s\<lparr>model := (model s)\<lparr>training := True\<rparr>\<rparr>"
  obtain bs g1 where it: "iter_loader T (train_loader C) (rng s1) = (bs, g1)"
    by (cases "iter_loader T (train_loader C) (rng s1)")
  with iter_loader_length [of T "train_loader C" "rng s1"]
  have len: "length bs = len_loader (train_loader C)" by simp
  have tr: "train T C epoch s = train_batches T C epoch (enumerate 0 bs) (s1\<lparr>rng := g1\<rparr>)"
    using it by (simp add: train_def s1_def)
  from train_batches_events [of T C epoch 0 bs "s1\<lparr>rng := g1\<rparr>"] len tr
  show ?thesis by (simp add: s1_def algebra_simps)
qed

lemma test_events:
  "\<exists>new. events (state_of (test T C epoch s)) = events s @ new
     \<and> (\<forall>e\<in>set new. event_step e = (epoch + 1) * int (len_loader (train_loader C)))"
proof -
  let ?st = "(epoch + 1) * int (len_loader (train_loader C))"
  have two: "\<exists>new. events (state_of (and_then (log_scalar n1 v1 ?st s0) (log_scalar n2 v2 ?st)))
                 = events s0 @ new \<and> (\<forall>e\<in>set new. event_step e = ?st)"
    for n1 v1 n2 v2 and s0 :: "'a state"
    by (cases "writer s0") (simp_all add: log_scalar_cases events_def)
  define s1 where "s1 = s\<lparr>model := (model s)\<lparr>training := False\<rparr>\<rparr>"
  obtain bs g1 where it: "iter_loader T (test_loader C) (rng s1) = (bs, g1)"
    by (cases "iter_loader T (test_loader C) (rng s1)")
  obtain r g2 where tb: "test_batches T (model s1) bs (0, 0) g1 = (r, g2)"
    by (cases "test_batches T (model s1) bs (0, 0) g1")
  have ev: "events (s1\<lparr>rng := g2\<rparr>) = events s" by (simp add: s1_def)
  show ?thesis
  proof (cases r)
    case (Inl e)
    with it tb have "state_of (test T C epoch s) = s1\<lparr>rng := g2\<rparr>"
      by (simp add: test_def s1_def)
    with ev show ?thesis by simp
  next
    case (Inr acc)
    obtain tl cr where acc: "acc = (tl, cr)" by (cases acc)
    show ?thesis
    proof (cases "length (dataset (test_loader C)) = 0")
      case True
      with it tb Inr acc have "state_of (test T C epoch s) = s1\<lparr>rng := g2\<rparr>"
        by (simp add: test_def s1_def)
      with ev show ?thesis by simp
    next
      case False
      with it tb Inr acc have "test T C epoch s =
          and_then (log_scalar ''test_loss'' (tl / real (length (dataset (test_loader C)))) ?st
                      (s1\<lparr>rng := g2\<rparr>))
            (log_scalar ''test_accuracy'' (100 * real cr / real (length (dataset (test_loader C)))) ?st)"
        by (simp add: test_def s1_def Let_def)
      with two [of "''test_loss''" _ "s1\<lparr>rng := g2\<rparr>" "''test_accuracy''"] ev
      show ?thesis by simp
    qed
  qed
qed


lemma run_epochs_events:
  "\<exists>new. events (state_of (run_epochs T C [a..b] s)) = events s @ new
     \<and> sorted (map event_step new)
     \<and> (\<forall>e\<in>set new. a * int (len_loader (train_loader C)) \<le> event_step e)"
proof (induction "nat (b + 1 - a)" arbitrary: a s)
  case 0
  then have "[a..b] = []" by simp
  then show ?case by simp
next
  case (Suc k)
  let ?L = "int (len_loader (train_loader C))"
  from Suc.hyps(2) have ab: "a \<le> b" by simp
  then have up: "[a..b] = a # [a + 1..b]" by (simp add: upto_rec1)
  from Suc.hyps(2) have k: "k = nat (b + 1 - (a + 1))" by simp
  obtain new1 where n1: "events (state_of (train T C a s)) = events s @ new1"
    and s1: "sorted (map event_step new1)"
    and b1: "\<forall>e\<in>set new1. a * ?L \<le> event_step e \<and> event_step e < (a + 1) * ?L"
    using train_events [of T C a s] by blast
  show ?case
  proof (cases "train T C a s")
    case (Raised e s1)
    with n1 up have "events (state_of (run_epochs T C [a..b] s)) = events s @ new1" by simp
    with s1 b1 show ?thesis by blast
  next
    case (Done s1)
    with n1 have n1': "events s1 = events s @ new1" by simp
    obtain new2 where n2: "events (state_of (test T C a s1)) = events s1 @ new2"
      and b2: "\<forall>e\<in>set new2. event_step e = (a + 1) * ?L"
      using test_events [of T C a s1] by blast
    from b2 have s2: "sorted (map event_step new2)" by (rule sorted_const)
    from s1 s2 b1 b2 have s12: "sorted (map event_step (new1 @ new2))"
      by (fastforce simp: sorted_append)
    have mono: "a * ?L \<le> (a + 1) * ?L" by (simp add: algebra_simps)
    show ?thesis
    proof (cases "test T C a s1")
      case (Raised e s2)
      with Done n2 n1' up
      have "events (state_of (run_epochs T C [a..b] s)) = events s @ (new1 @ new2)" by simp
      moreover from b1 b2 mono have "\<forall>e\<in>set (new1 @ new2). a * ?L \<le> event_step e" by auto
      ultimately show ?thesis using s12 by blast
    next
      case (Done s2)
      with n2 n1' have n2': "events s2 = events s @ (new1 @ new2)" by simp
      obtain new3 where n3: "events (state_of (run_epochs T C [a + 1..b] s2)) = events s2 @ new3"
        and s3: "sorted (map event_step new3)"
        and b3: "\<forall>e\<in>set new3. (a + 1) * ?L \<le> event_step e"
        using Suc.hyps(1) [OF k, of s2] by blast
      from \<open>train T C a s = Done s1\<close> Done up n3 n2'
      have "events (state_of (run_epochs T C [a..b] s)) = events s @ (new1 @ new2 @ new3)"
        by simp
      moreover from s12 s3 b1 b2 b3 have "sorted (map event_step (new1 @ new2 @ new3))"
        by (fastforce simp: sorted_append)
      moreover from b1 b2 b3 mono have "\<forall>e\<in>set (new1 @ new2 @ new3). a * ?L \<le> event_step e"
        by fastforce
      ultimately show ?thesis by blast
    qed
  qed
qed

lemma main_events:
  "\<exists>s3. events (state_of (main T C s)) = events s3
      \<and> s3 = state_of (run_epochs T C [1..epochs (args C)]
           (s\<lparr>mlflow := mlflow s @ map (\<lambda>(key, v). Log_param key v) (vars_items (args C)),
              writer := Some []\<rparr>))"
  by (cases "run_epochs T C [1..epochs (args C)]
           (s\<lparr>mlflow := mlflow s @ map (\<lambda>(key, v). Log_param key v) (vars_items (args C)),
              writer := Some []\<rparr>)")
     (simp_all add: main_def Let_def split: sum.splits)

text \<open>
  Claim C5, as amended.  Over a whole run, for every epoch count, log interval and
  training feed, and whether the run completes or stops at an error, the step values of
  the events the event writer receives (\<^verbatim>\<open>train_loss\<close> and the weight histograms at
  \<open>epoch * len(train_loader) + batch_idx\<close>, \<^verbatim>\<open>test_loss\<close> and \<^verbatim>\<open>test_accuracy\<close> at
  \<open>(epoch + 1) * len(train_loader)\<close>) never decrease in call order.
\<close>

theorem steps_nondecreasing:
  "sorted (map event_step (events (state_of (main T C s))))"
proof -
  let ?s2 = "s\<lparr>mlflow := mlflow s @ map (\<lambda>(key, v). Log_param key v) (vars_items (args C)),
              writer := Some []\<rparr>"
  from run_epochs_events [of T C 1 "epochs (args C)" ?s2]
  have "sorted (map event_step (events (state_of (run_epochs T C [1..epochs (args C)] ?s2))))"
    by auto
  with main_events [of T C s] show ?thesis by simp
qed

subsection \<open>The first batch of an epoch\<close>

lemma len_loader_pos:
  "dataset ld \<noteq> [] \<Longrightarrow> 0 < loader_batch_size ld \<Longrightarrow> 0 < len_loader ld"
proof -
  assume "dataset ld \<noteq> []" and bs: "0 < loader_batch_size ld"
  then have "loader_batch_size ld \<le> length (dataset ld) + loader_batch_size ld - 1"
    by (cases "dataset ld") simp_all
  then have "loader_batch_size ld div loader_batch_size ld
           \<le> (length (dataset ld) + loader_batch_size ld - 1) div loader_batch_size ld"
    by (rule div_le_mono)
  with bs show ?thesis by (simp add: len_loader_def)
qed

text \<open>
  Claim C10.  For a log interval of at least 1 and a training feed with at least one
  batch, whenever \<^verbatim>\<open>train(epoch)\<close> returns, the first events it has emitted are a
  \<^verbatim>\<open>train_loss\<close> scalar and the eight weight histograms of \<^verbatim>\<open>log_weights\<close>, all with the
  step value \<open>epoch * len(train_loader)\<close>, the step of batch index 0.
\<close>

theorem first_batch_logs:
  assumes li: "1 \<le> log_interval (args C)"
    and ds: "dataset (train_loader C) \<noteq> []"
    and bsz: "0 < loader_batch_size (train_loader C)"
    and ret: "train T C epoch s = Done s'"
  shows "\<exists>loss p rest.
      events s' = events s
        @ Add_scalar ''train_loss'' loss (epoch * int (len_loader (train_loader C)))
        # map (\<lambda>(name, vs). Add_histogram name vs (epoch * int (len_loader (train_loader C))))
            (weight_histograms p)
        @ rest
    \<and> map fst (weight_histograms p) =
        [''weights/conv1/weight'', ''weights/conv1/bias'', ''weights/conv2/weight'',
         ''weights/conv2/bias'', ''weights/fc1/weight'', ''weights/fc1/bias'',
         ''weights/fc2/weight'', ''weights/fc2/bias'']"
proof -
  let ?st = "epoch * int (len_loader (train_loader C))"
  define s0 where "s0 = s\<lparr>model := (model s)\<lparr>training := True\<rparr>\<rparr>"
  obtain bs g1 where it: "iter_loader T (train_loader C) (rng s0) = (bs, g1)"
    by (cases "iter_loader T (train_loader C) (rng s0)")
  with iter_loader_length [of T "train_loader C" "rng s0"] len_loader_pos [OF ds bsz]
  have "0 < length bs" by simp
  then obtain data target bs' where bs: "bs = (data, target) # bs'"
    by (cases bs) auto
  define sa where "sa = s0\<lparr>rng := g1\<rparr>"
  have ev0: "events sa = events s" by (simp add: sa_def s0_def)
  from ret it bs have tb:
    "train_batches T C epoch ((0, data, target) # enumerate (Suc 0) bs') sa = Done s'"
    by (simp add: train_def s0_def sa_def)
  define s1 where "s1 = sa\<lparr>grad := None\<rparr>"
  obtain r g2 where fw: "forward T (model s1) (rng s1) data = (r, g2)"
    by (cases "forward T (model s1) (rng s1) data")
  from tb fw obtain outp where r: "r = Inr outp"
    by (cases r) (simp_all add: s1_def Let_def)
  from tb fw r obtain loss where nl: "nll_loss outp target Mean = Inr loss"
    by (cases "nll_loss outp target Mean") (simp_all add: s1_def Let_def)
  define gr where "gr = backward T (parameters (model s1)) (rng s1) data target"
  define s2 where "s2 = s1\<lparr>rng := g2, grad := Some gr\<rparr>"
  define pb where "pb = sgd_step T (lr (args C)) (momentum (args C)) gr
                          (parameters (model s2), momentum_buffer s2)"
  define s3 where "s3 = s2\<lparr>model := (model s2)\<lparr>parameters := fst pb\<rparr>,
                           momentum_buffer := snd pb\<rparr>"
  have ev3: "events s3 = events s" by (simp add: s3_def s2_def s1_def ev0)
  from li have li0: "log_interval (args C) \<noteq> 0" by simp
  have "train_batches T C epoch ((0, data, target) # enumerate (Suc 0) bs') sa =
        (case log_scalar ''train_loss'' loss ?st s3 of
              Raised e s4 \<Rightarrow> Raised e s4
            | Done s4 \<Rightarrow>
                (case log_weights ?st s4 of
                   Raised e s5 \<Rightarrow> Raised e s5
                 | Done s5 \<Rightarrow> train_batches T C epoch (enumerate (Suc 0) bs') s5))"
    using fw r nl li0
    by (simp add: Let_def s1_def gr_def s2_def pb_def s3_def)
  with tb obtain s4 s5 where
    l4: "log_scalar ''train_loss'' loss ?st s3 = Done s4"
    and l5: "log_weights ?st s4 = Done s5"
    and rest: "train_batches T C epoch (enumerate (Suc 0) bs') s5 = Done s'"
    by (auto split: result.splits)
  from l4 have w3: "writer s3 \<noteq> None" by (rule log_scalar_Done)
  with log_scalar_events [of "''train_loss''" loss ?st s3] l4 ev3
  have ev4: "events s4 = events s @ [Add_scalar ''train_loss'' loss ?st]" by simp
  from log_scalar_writer [of "''train_loss''" loss ?st s3] l4 w3
  have w4: "writer s4 \<noteq> None" by simp
  with log_weights_events [of ?st s4] l5 ev4
  have ev5: "events s5 = events s @ [Add_scalar ''train_loss'' loss ?st]
       @ map (\<lambda>(name, vs). Add_histogram name vs ?st) (weight_histograms (parameters (model s4)))"
    by simp
  from train_batches_events [of T C epoch "Suc 0" bs' s5] rest
  obtain new where "events s' = events s5 @ new" by auto
  with ev5 have "events s' = events s @ Add_scalar ''train_loss'' loss ?st
       # map (\<lambda>(name, vs). Add_histogram name vs ?st) (weight_histograms (parameters (model s4)))
       @ new" by simp
  moreover have "map fst (weight_histograms (parameters (model s4))) =
        [''weights/conv1/weight'', ''weights/conv1/bias'', ''weights/conv2/weight'',
         ''weights/conv2/bias'', ''weights/fc1/weight'', ''weights/fc1/bias'',
         ''weights/fc2/weight'', ''weights/fc2/bias'']"
    by (simp add: weight_histograms_def)
  ultimately show ?thesis by (intro exI conjI)
qed

subsection \<open>A run of zero epochs\<close>

text \<open>
  Claim C8.  With \<^verbatim>\<open>epochs = 0\<close>, and a default manifest that the merge utility accepts,
  the run returns; the model, the gradients and the optimizer state are the initial ones
  (no optimizer step), the event writer has received no event and the tracking client no
  metric; the tracking client has received the parameters of the run, the upload of the
  event directory under \<^verbatim>\<open>events\<close> and the registration of \<^verbatim>\<open>pytorch-model\<close> with the
  saved scripted model and the extended manifest.
\<close>

theorem zero_epochs_run:
  assumes ep: "epochs (args C) = 0"
    and env: "add_libraries_to_conda_env (get_default_conda_env T)
                [Str ''typing-extensions'', Str ''Pillow''] [] = Inr conda_env"
  shows "main T C s =
     Done (s\<lparr>writer := Some [],
             mlflow := mlflow s @ map (\<lambda>(key, v). Log_param key v) (vars_items (args C))
                @ [Log_artifacts (mkdtemp T) ''events'',
                   Log_model ''pytorch-model'' [(''scripted_model'', ''scripted_model.pth'')]
                     conda_env],
             files := (files s)(''scripted_model.pth'' \<mapsto> model s)\<rparr>)"
  using ep env by (simp add: main_def Let_def)

subsection \<open>The final activation\<close>

lemma sum_list_swap:
  "(\<Sum>r\<leftarrow>z. \<Sum>c\<leftarrow>cs. f r c) = (\<Sum>c\<leftarrow>cs. \<Sum>r\<leftarrow>z. (f r c :: real))"
  by (induction z) (simp_all add: sum_list_addf)

lemma sum_list_exp_pos: "z \<noteq> [] \<Longrightarrow> 0 < (\<Sum>r\<leftarrow>z. exp (f r :: real))"
proof (induction z)
  case Nil
  then show ?case by simp
next
  case (Cons a z)
  have "0 \<le> (\<Sum>r\<leftarrow>z. exp (f r))" by (rule sum_list_nonneg) auto
  moreover have "0 < exp (f a)" by simp
  ultimately show ?case by (simp add: add_pos_nonneg)
qed

lemma log_softmax_dim0_column:
  assumes "z \<noteq> []"
  shows "(\<Sum>r\<leftarrow>z. exp (r ! c - ln (\<Sum>r\<leftarrow>z. exp (r ! c)))) = (1::real)"
proof -
  let ?S = "\<Sum>r\<leftarrow>z. exp (r ! c)"
  from assms have pos: "0 < ?S" by (rule sum_list_exp_pos)
  have "(\<Sum>r\<leftarrow>z. exp (r ! c - ln ?S)) = (\<Sum>r\<leftarrow>z. exp (r ! c) * inverse ?S)"
    using pos by (simp add: exp_diff divide_inverse)
  also have "\<dots> = ?S * inverse ?S" by (simp add: sum_list_mult_const)
  also have "\<dots> = 1" using pos by simp
  finally show ?thesis .
qed

text \<open>
  Claim C2 fails on the code.  \<^verbatim>\<open>forward\<close> ends with \<^verbatim>\<open>F.log_softmax(x, dim=0)\<close>, which
  normalises every column over the rows of the batch.  So the exponentials of the whole
  output sum to the number of classes, and whenever the output has 10 classes and a
  number of rows other than 10, some row is not a log-probability distribution: its
  exponentials do not sum to 1.
\<close>

theorem forward_rows_not_distributions:
  assumes fw: "forward T m g x = (Inr out, g')"
    and ne: "out \<noteq> []"
    and cols: "\<forall>row\<in>set out. length row = 10"
    and rows: "length out \<noteq> 10"
  shows "\<exists>row\<in>set out. (\<Sum>v\<leftarrow>row. exp v) \<noteq> 1"
proof (rule ccontr)
  assume "\<not> (\<exists>row\<in>set out. (\<Sum>v\<leftarrow>row. exp v) \<noteq> 1)"
  then have one: "\<forall>row\<in>set out. (\<Sum>v\<leftarrow>row. exp v) = 1" by simp
  from forward_output [OF fw] obtain z where "log_softmax z 0 = Inr out" ..
  then have out: "out = map (\<lambda>row. map (\<lambda>c. row ! c - ln (\<Sum>r\<leftarrow>z. exp (r ! c))) [0..<length row]) z"
    by (simp add: log_softmax_def)
  with ne have z: "z \<noteq> []" by auto
  from out cols have len: "\<forall>r\<in>set z. length r = 10" by auto
  have "real (length out) = (\<Sum>row\<leftarrow>out. \<Sum>v\<leftarrow>row. exp v)"
  proof -
    have "(\<Sum>row\<leftarrow>out. \<Sum>v\<leftarrow>row. exp v) = (\<Sum>row\<leftarrow>out. 1)"
      using one by (intro arg_cong [where f = sum_list] map_cong) simp_all
    then show ?thesis by (simp add: sum_list_triv)
  qed
  also have "\<dots> = (\<Sum>r\<leftarrow>z. \<Sum>c\<leftarrow>[0..<10]. exp (r ! c - ln (\<Sum>r\<leftarrow>z. exp (r ! c))))"
    unfolding out using len
    by (simp add: comp_def del: upt_Suc cong: map_cong)
  also have "\<dots> = (\<Sum>c\<leftarrow>[0..<10]. \<Sum>r\<leftarrow>z. exp (r ! c - ln (\<Sum>r\<leftarrow>z. exp (r ! c))))"
    by (rule sum_list_swap)
  also have "\<dots> = (\<Sum>c\<leftarrow>[0..<10::nat]. 1)"
    by (simp only: log_softmax_dim0_column [OF z])
  also have "\<dots> = 10" by (simp add: sum_list_triv del: upt_Suc)
  finally have "length out = 10" by simp
  with rows show False by simp
qed

subsection \<open>A concrete run\<close>

lemma dropout_ref_zero:
  "dropout_ref g (replicate N (replicate M 0)) = (replicate N (replicate M 0), \<lambda>i. g (i + N * M))"
proof -
  have "map (\<lambda>(r, row). map (\<lambda>(k, v). if g (r * length row + k) then 2 * v else 0)
                           (enumerate 0 row)) (enumerate 0 (replicate N (replicate M (0::real))))
      = replicate N (replicate M 0)"
    by (simp add: enumerate_replicate_map map_upt_const del: upt_Suc replicate_Suc)
  then show ?thesis
    by (simp add: dropout_ref_def concat_replicate_replicate del: upt_Suc replicate_Suc)
qed

lemma log_softmax_dim0_const:
  "log_softmax (replicate N (replicate M 0)) 0 = Inr (replicate N (replicate M (- ln (real N))))"
proof -
  have "map (\<lambda>c. replicate M 0 ! c - ln (\<Sum>r\<leftarrow>replicate N (replicate M (0::real)). exp (r ! c))) [0..<M]
      = replicate M (- ln (real N))"
    by (intro map_upt_const) (simp add: sum_list_replicate comp_def)
  then show ?thesis
    by (simp add: log_softmax_def del: upt_Suc replicate_Suc)
qed

lemma zero_params_fields:
  "conv1_weight zero_params = replicate 10 (replicate 1 (replicate 5 (replicate 5 0)))"
  "conv1_bias zero_params = replicate 10 0"
  "conv2_weight zero_params = replicate 20 (replicate 10 (replicate 5 (replicate 5 0)))"
  "conv2_bias zero_params = replicate 20 0"
  "fc1_weight zero_params = replicate 50 (replicate 320 0)"
  "fc1_bias zero_params = replicate 50 0"
  "fc2_weight zero_params = replicate 10 (replicate 50 0)"
  "fc2_bias zero_params = replicate 10 0"
  by (simp_all add: zero_params_def)

lemma forward_demo_zero:
  assumes "parameters m = zero_params"
  shows "forward demo_lib m g (blank_batch N) =
     (Inr (replicate N (replicate 10 (- ln (real N)))),
      if training m then (\<lambda>i. g (i + N * 50 + N * 20)) else g)"
proof -
  have fc2: "linear_ref (replicate 10 (replicate 50 0)) (replicate 10 0) (replicate N (replicate 50 0))
      = replicate N (replicate 10 0)"
    by (rule linear_ref_zero) simp
  show ?thesis
    by (subst forward_demo)
       (simp_all add: assms zero_params_fields dropout_ref_zero fc2 log_softmax_dim0_const
          del: replicate_Suc)
qed

lemma forward_demo_one:
  assumes "parameters m = zero_params"
  shows "forward demo_lib m g [[replicate 28 (replicate 28 0)]] =
     (Inr [[0, 0, 0, 0, 0, 0, 0, 0, 0, 0]], if training m then (\<lambda>i. g (i + 70)) else g)"
  using forward_demo_zero [OF assms, of g 1]
  by (simp add: blank_batch_def eval_nat_numeral)

lemma iter_demo_loader:
  "iter_loader demo_lib demo_loader g = ([([[replicate 28 (replicate 28 0)]], [0])], \<lambda>i. g (i + 1))"
  by (simp add: iter_loader_def demo_loader_def shuffle.simps [of _ _ "[x]" for x]
      shuffle.simps [of _ _ "[]"] demo_lib_def batches_def collate_def Let_def)

lemma demo_config_fields [simp]:
  "train_loader (demo_config e li) = demo_loader"
  "test_loader (demo_config e li) = demo_loader"
  "log_interval (args (demo_config e li)) = li"
  "epochs (args (demo_config e li)) = e"
  "len_loader demo_loader = 1"
  "length (dataset demo_loader) = 1"
  by (simp_all add: demo_config_def demo_loader_def len_loader_def)

lemma test_demo:
  assumes "parameters (model s) = zero_params" and "writer s = Some evs"
  shows "test demo_lib (demo_config e li) epoch s =
     Done (s\<lparr>model := (model s)\<lparr>training := False\<rparr>,
             rng := (\<lambda>i. rng s (Suc i)),
             writer := Some (evs @ [Add_scalar ''test_loss'' 0 (epoch + 1),
                                    Add_scalar ''test_accuracy'' 100 (epoch + 1)]),
             mlflow := mlflow s @ [Log_metric ''test_loss'' 0 None,
                                   Log_metric ''test_accuracy'' 100 None]\<rparr>)"
  using assms
  by (simp add: test_def iter_demo_loader forward_demo_one nll_loss_def max_dim1_indices_def
      count_eq_def log_scalar_cases Let_def)

lemma train_demo:
  assumes "parameters (model s) = zero_params" and "writer s = Some evs" and "li \<noteq> 0"
  shows "train demo_lib (demo_config e li) epoch s =
     Done (s\<lparr>model := (model s)\<lparr>training := True\<rparr>,
             grad := Some zero_params,
             momentum_buffer := Some zero_params,
             rng := (\<lambda>i. rng s (71 + i)),
             writer := Some (evs @ Add_scalar ''train_loss'' 0 epoch
                          # map (\<lambda>(name, vs). Add_histogram name vs epoch)
                              (weight_histograms zero_params)),
             mlflow := mlflow s @ [Log_metric ''train_loss'' 0 None]\<rparr>)"
  using assms
  by (simp add: train_def iter_demo_loader enumerate_eq_zip forward_demo_one nll_loss_def
      log_scalar_cases log_weights_def add_histograms_Some demo_lib_def [THEN arg_cong [where f = backward]]
      demo_lib_def [THEN arg_cong [where f = sgd_step]])

lemma initial_state_fields [simp]:
  "parameters (model (initial_state p g)) = p"
  "writer (initial_state p g) = None"
  "mlflow (initial_state p g) = []"
  "rng (initial_state p g) = g"
  by (simp_all add: initial_state_def)

lemma main_demo_events:
  "events (state_of (main demo_lib (demo_config 2 1) (initial_state zero_params no_coins))) =
     Add_scalar ''train_loss'' 0 1
     # map (\<lambda>(name, vs). Add_histogram name vs 1) (weight_histograms zero_params)
     @ [Add_scalar ''test_loss'' 0 2, Add_scalar ''test_accuracy'' 100 2]
     @ Add_scalar ''train_loss'' 0 2
     # map (\<lambda>(name, vs). Add_histogram name vs 2) (weight_histograms zero_params)
     @ [Add_scalar ''test_loss'' 0 3, Add_scalar ''test_accuracy'' 100 3]"
  by (simp add: main_def Let_def train_demo test_demo demo_lib_def [THEN arg_cong [where f = get_default_conda_env]]
      demo_lib_def [THEN arg_cong [where f = mkdtemp]] add_libraries_to_conda_env_def find_pip_def
      upto.simps)

subsection \<open>The theorems on the concrete run\<close>

text \<open>
  The claim as stated (C5) fails: the steps are not strictly increasing.  In a run of two
  epochs over one training batch, taking only the \<^verbatim>\<open>train_loss\<close> events and one event
  for each call of \<^verbatim>\<open>test\<close>, the steps are 1, 2, 2, 3: the evaluation of epoch 1 and the
  first batch of epoch 2 have the same step, \<open>2 * len(train_loader)\<close>.
\<close>

theorem steps_strict_counterexample:
  "\<not> sorted_wrt (<) (metric_steps [''train_loss'', ''test_loss'']
       (events (state_of (main demo_lib (demo_config 2 1) (initial_state zero_params no_coins)))))"
  by (simp add: main_demo_events weight_histograms_def)

theorem test_metric_ranges_witness:
  "test demo_lib (demo_config 1 1) 1 ((initial_state zero_params no_coins)\<lparr>writer := Some []\<rparr>)
     = Done ((initial_state zero_params no_coins)
         \<lparr>model := \<lparr>parameters = zero_params, training = False\<rparr>,
          rng := (\<lambda>i. no_coins (Suc i)),
          writer := Some [Add_scalar ''test_loss'' 0 2, Add_scalar ''test_accuracy'' 100 2],
          mlflow := [Log_metric ''test_loss'' 0 None, Log_metric ''test_accuracy'' 100 None]\<rparr>)
   \<and> (\<exists>evs test_loss test_accuracy step.
      writer ((initial_state zero_params no_coins)\<lparr>writer := Some []\<rparr>) = Some evs
    \<and> Some [Add_scalar ''test_loss'' 0 2, Add_scalar ''test_accuracy'' 100 2]
         = Some (evs @ [Add_scalar ''test_loss'' test_loss step,
                        Add_scalar ''test_accuracy'' test_accuracy step])
    \<and> 0 \<le> test_loss \<and> 0 \<le> test_accuracy \<and> test_accuracy \<le> 100)"
proof -
  let ?s0 = "(initial_state zero_params no_coins)\<lparr>writer := Some []\<rparr>"
  let ?s1 = "(initial_state zero_params no_coins)
         \<lparr>model := \<lparr>parameters = zero_params, training = False\<rparr>,
          rng := (\<lambda>i. no_coins (Suc i)),
          writer := Some [Add_scalar ''test_loss'' 0 2, Add_scalar ''test_accuracy'' 100 2],
          mlflow := [Log_metric ''test_loss'' 0 None, Log_metric ''test_accuracy'' 100 None]\<rparr>"
  have run: "test demo_lib (demo_config 1 1) 1 ?s0 = Done ?s1"
    by (simp add: test_demo [where evs = "[]"] initial_state_def)
  from test_metric_ranges [OF run] run show ?thesis by simp
qed

theorem first_batch_logs_witness:
  "\<exists>loss p rest.
      events (state_of (train demo_lib (demo_config 1 1) 1
                 ((initial_state zero_params no_coins)\<lparr>writer := Some []\<rparr>)))
      = Add_scalar ''train_loss'' loss 1
        # map (\<lambda>(name, vs). Add_histogram name vs 1) (weight_histograms p) @ rest
    \<and> map fst (weight_histograms p) =
        [''weights/conv1/weight'', ''weights/conv1/bias'', ''weights/conv2/weight'',
         ''weights/conv2/bias'', ''weights/fc1/weight'', ''weights/fc1/bias'',
         ''weights/fc2/weight'', ''weights/fc2/bias'']"
proof -
  let ?s0 = "(initial_state zero_params no_coins)\<lparr>writer := Some []\<rparr>"
  obtain s' where run: "train demo_lib (demo_config 1 1) 1 ?s0 = Done s'"
    by (simp add: train_demo [where evs = "[]"])
  have "(1::int) \<le> log_interval (args (demo_config 1 1))"
    "dataset (train_loader (demo_config 1 1)) \<noteq> []"
    "0 < loader_batch_size (train_loader (demo_config 1 1))"
    by (simp_all add: demo_loader_def)
  from first_batch_logs [OF this run] run show ?thesis
    by (simp add: events_def initial_state_def)
qed

theorem zero_epochs_run_witness:
  "main demo_lib (demo_config 0 1) (initial_state zero_params no_coins) =
     Done ((initial_state zero_params no_coins)
        \<lparr>writer := Some [],
         mlflow := map (\<lambda>(key, v). Log_param key v) (vars_items (args (demo_config 0 1)))
            @ [Log_artifacts ''/tmp/events'' ''events'',
               Log_model ''pytorch-model'' [(''scripted_model'', ''scripted_model.pth'')]
                 [(''name'', Str ''mlflow-env''),
                  (''channels'', Lst [Str ''conda-forge'']),
                  (''dependencies'', Lst [Str ''python'', Str ''pip'',
                     Dict [(''pip'', Lst [Str ''mlflow'', Str ''torch'', Str ''cloudpickle'',
                                          Str ''typing-extensions'', Str ''Pillow''])]])]],
         files := [''scripted_model.pth'' \<mapsto> \<lparr>parameters = zero_params, training = True\<rparr>]\<rparr>)"
proof -
  have ep: "epochs (args (demo_config 0 1)) = 0" by simp
  have env: "add_libraries_to_conda_env (get_default_conda_env demo_lib)
                [Str ''typing-extensions'', Str ''Pillow''] []
     = Inr [(''name'', Str ''mlflow-env''),
                  (''channels'', Lst [Str ''conda-forge'']),
                  (''dependencies'', Lst [Str ''python'', Str ''pip'',
                     Dict [(''pip'', Lst [Str ''mlflow'', Str ''torch'', Str ''cloudpickle'',
                                          Str ''typing-extensions'', Str ''Pillow''])]])]"
    by (simp add: demo_lib_def add_libraries_to_conda_env_def find_pip_def)
  from zero_epochs_run [OF ep env, of "initial_state zero_params no_coins"] show ?thesis
    by (simp add: demo_lib_def initial_state_def)
qed

theorem forward_rows_not_distributions_witness:
  "forward demo_lib \<lparr>parameters = zero_params, training = False\<rparr> no_coins (blank_batch 2)
     = (Inr (replicate 2 (replicate 10 (- ln 2))), no_coins)
   \<and> (\<exists>row\<in>set (replicate 2 (replicate 10 (- ln 2))). (\<Sum>v\<leftarrow>row. exp v) \<noteq> (1::real))"
proof -
  have fw: "forward demo_lib \<lparr>parameters = zero_params, training = False\<rparr> no_coins (blank_batch 2)
     = (Inr (replicate 2 (replicate 10 (- ln 2))), no_coins)"
    by (simp add: forward_demo_zero)
  have "replicate 2 (replicate 10 (- ln (2::real))) \<noteq> []"
    "\<forall>row\<in>set (replicate 2 (replicate 10 (- ln (2::real)))). length row = 10"
    "length (replicate 2 (replicate 10 (- ln (2::real)))) \<noteq> 10"
    by simp_all
  from forward_rows_not_distributions [OF fw this] fw show ?thesis by simp
qed

subsection \<open>The inference wrapper\<close>

lemma forward_eval_rng:
  "\<not> training m \<Longrightarrow> forward T m g x = (fst (forward T m g' x), g)"
  by (simp add: forward_def Let_def split: sum.splits)

lemma predict_eval_mode_deterministic:
  assumes "wrapped_model w = Some m" and "\<not> training m"
  shows "predict T w model_input g = (fst (predict T w model_input g'), g)"
proof -
  from assms(2) have fw: "forward T m g x = (fst (forward T m g' x), g)" for x
    by (rule forward_eval_rng)
  show ?thesis
  proof (cases "decode_rows T model_input")
    case (Inl e)
    then show ?thesis by (simp add: predict_def)
  next
    case (Inr arrs)
    show ?thesis
    proof (cases "np_stack arrs")
      case (Inl e)
      with Inr show ?thesis by (simp add: predict_def)
    next
      case st: (Inr x)
      obtain r h where g': "forward T m g' x = (r, h)" by (cases "forward T m g' x")
      with fw [of x] have "forward T m g x = (r, g)" by simp
      with Inr st assms(1) g' show ?thesis
        by (cases r) (simp_all add: predict_def)
    qed
  qed
qed

lemma dropout_ref_const:
  "dropout_ref g (replicate N (replicate M v))
     = (map (\<lambda>r. map (\<lambda>k. if g (r * M + k) then 2 * v else 0) [0..<M]) [0..<N],
        \<lambda>i. g (i + N * M))"
  by (simp add: dropout_ref_def enumerate_replicate_map concat_replicate_replicate
      del: upt_Suc replicate_Suc)

lemma sum_list_upt_const: "(\<Sum>k\<leftarrow>[0..<n]. c) = real n * c"
  by (simp add: sum_list_triv)

lemma fc2_row:
  "map (\<lambda>oc. replicate 10 0 ! oc
        + (\<Sum>k\<leftarrow>[0..<50]. (replicate 50 1 # replicate 9 (replicate 50 0)) ! oc ! k
              * replicate 50 a ! k)) [0..<10]
   = (50 * a) # replicate 9 (0::real)"
proof (rule nth_equalityI)
  show "length (map (\<lambda>oc. replicate 10 0 ! oc
        + (\<Sum>k\<leftarrow>[0..<50]. (replicate 50 1 # replicate 9 (replicate 50 0)) ! oc ! k
              * replicate 50 a ! k)) [0..<10]) = length ((50 * a) # replicate 9 (0::real))"
    by simp
next
  fix i
  assume "i < length (map (\<lambda>oc. replicate 10 0 ! oc
        + (\<Sum>k\<leftarrow>[0..<50]. (replicate 50 1 # replicate 9 (replicate 50 0)) ! oc ! k
              * replicate 50 a ! k)) [0..<10])"
  then have i: "i < 10" by simp
  have s0: "(\<Sum>k\<leftarrow>[0..<50]. replicate 50 (1::real) ! k * replicate 50 a ! k) = 50 * a"
  proof -
    have "map (\<lambda>k. replicate 50 (1::real) ! k * replicate 50 a ! k) [0..<50] = replicate 50 a"
      by (intro map_upt_const) simp
    then show ?thesis by (simp only: sum_list_replicate)
  qed
  have s1: "(\<Sum>k\<leftarrow>[0..<50]. replicate 9 (replicate 50 (0::real)) ! j ! k * replicate 50 a ! k) = 0"
    if "j < 9" for j
    using that by (intro sum_list_upt_zero) simp
  show "map (\<lambda>oc. replicate 10 0 ! oc
        + (\<Sum>k\<leftarrow>[0..<50]. (replicate 50 1 # replicate 9 (replicate 50 0)) ! oc ! k
              * replicate 50 a ! k)) [0..<10] ! i = ((50 * a) # replicate 9 (0::real)) ! i"
  proof (cases i)
    case 0
    then show ?thesis using s0 by (simp del: upt_Suc replicate_Suc)
  next
    case (Suc j)
    with i have "j < 9" by simp
    with Suc i s1 [of j] show ?thesis by (simp del: upt_Suc replicate_Suc)
  qed
qed

lemma fc2_rows:
  "linear_ref (replicate 50 1 # replicate 9 (replicate 50 0)) (replicate 10 0)
      [replicate 50 a, replicate 50 b]
   = [(50 * a) # replicate 9 0, (50 * b) # replicate 9 0]"
  by (simp add: linear_ref_def fc2_row del: upt_Suc replicate_Suc)

lemma log_softmax_two:
  "log_softmax [a # replicate 9 0, b # replicate 9 0] 0
     = Inr [(a - ln (exp a + exp b)) # replicate 9 (- ln 2),
            (b - ln (exp a + exp b)) # replicate 9 (- ln 2)]"
  by (simp add: log_softmax_def eval_nat_numeral)

lemma ln_facts:
  "- ln 2 < 1 - ln (exp 1 + (1::real))"
  "- ln (exp 1 + 1) < - ln (2::real)"
proof -
  have e: "(1::real) < exp 1" by simp
  then have "ln (exp 1 + 1) < ln (2 * exp (1::real))"
    by (subst ln_less_cancel_iff) (simp_all add: add_pos_pos)
  also have "\<dots> = ln 2 + 1" by (simp add: ln_mult)
  finally show "- ln 2 < 1 - ln (exp 1 + (1::real))" by simp
  from e have "ln (2::real) < ln (exp 1 + 1)"
    by (subst ln_less_cancel_iff) (simp_all add: add_pos_pos)
  then show "- ln (exp 1 + 1) < - ln (2::real)" by simp
qed

lemma labels_first_kept:
  "max_dim1_indices [(1 - ln (exp 1 + 1)) # replicate 9 (- ln 2),
            (- ln (exp 1 + 1)) # replicate 9 (- ln (2::real))] = Inr [0, Suc 0]"
  using ln_facts by (simp add: max_dim1_indices_def eval_nat_numeral)

lemma labels_second_kept:
  "max_dim1_indices [(- ln (1 + exp 1)) # replicate 9 (- ln 2),
            (1 - ln (1 + exp 1)) # replicate 9 (- ln (2::real))] = Inr [Suc 0, 0]"
  using ln_facts by (simp add: max_dim1_indices_def eval_nat_numeral add.commute)

lemma dropout_params_fields:
  "conv1_weight dropout_params = replicate 10 (replicate 1 (replicate 5 (replicate 5 0)))"
  "conv1_bias dropout_params = replicate 10 0"
  "conv2_weight dropout_params = replicate 20 (replicate 10 (replicate 5 (replicate 5 0)))"
  "conv2_bias dropout_params = replicate 20 0"
  "fc1_weight dropout_params = replicate 50 (replicate 320 0)"
  "fc1_bias dropout_params = replicate 50 (1 / 100)"
  "fc2_weight dropout_params = replicate 50 1 # replicate 9 (replicate 50 0)"
  "fc2_bias dropout_params = replicate 10 0"
  by (simp_all add: dropout_params_def zero_params_def)

lemma forward_dropout_net:
  assumes P: "parameters m = dropout_params" and tr: "training m"
    and r0: "\<And>k. k < 50 \<Longrightarrow> g (k + 40) = b0"
    and r1: "\<And>k. k < 50 \<Longrightarrow> g (k + 90) = b1"
  shows "forward demo_lib m g (blank_batch 2) =
     (log_softmax [(if b0 then 1 else 0) # replicate 9 0, (if b1 then 1 else 0) # replicate 9 0] 0,
      \<lambda>i. g (i + 140))"
proof -
  have relu: "map relu (replicate 50 (1 / 100)) = replicate 50 (1 / 100)"
    by (simp add: relu_def)
  have row0: "map (\<lambda>k. if g (0 * 50 + k + 2 * 20) then 2 * (1 / 100) else (0::real)) [0..<50]
      = replicate 50 (if b0 then 1 / 50 else 0)"
    by (intro map_upt_const) (simp add: r0)
  have row1: "map (\<lambda>k. if g (1 * 50 + k + 2 * 20) then 2 * (1 / 100) else (0::real)) [0..<50]
      = replicate 50 (if b1 then 1 / 50 else 0)"
  proof (intro map_upt_const)
    fix k :: nat assume "k < 50"
    then have "g (k + 90) = b1" by (rule r1)
    moreover have "1 * 50 + k + 2 * 20 = k + 90" by simp
    ultimately show "(if g (1 * 50 + k + 2 * 20) then 2 * (1 / 100) else (0::real))
        = (if b1 then 1 / 50 else 0)" by (simp add: add.commute)
  qed
  have two: "[0..<2] = [0, 1]" by (simp add: eval_nat_numeral)
  have drop: "dropout_ref (\<lambda>i. g (i + 2 * 20)) (replicate 2 (replicate 50 (1 / 100)))
      = ([replicate 50 (if b0 then 1 / 50 else 0), replicate 50 (if b1 then 1 / 50 else 0)],
         \<lambda>i. g (i + 140))"
    unfolding dropout_ref_const two using row0 row1 by (simp add: add.commute add.left_commute)
  have fc2: "linear_ref (replicate 50 1 # replicate 9 (replicate 50 0)) (replicate 10 0)
      [replicate 50 (if b0 then 1 / 50 else 0), replicate 50 (if b1 then 1 / 50 else 0)]
      = [(if b0 then 1 else 0) # replicate 9 0, (if b1 then 1 else 0) # replicate 9 0]"
    by (simp add: fc2_rows del: replicate_Suc)
  have "forward demo_lib m g (blank_batch 2) =
      (log_softmax (linear_ref (fc2_weight (parameters m)) (fc2_bias (parameters m))
                 (fst (dropout_ref (\<lambda>i. g (i + 2 * 20))
                        (replicate 2 (map relu (fc1_bias (parameters m))))))) 0,
            snd (dropout_ref (\<lambda>i. g (i + 2 * 20))
                        (replicate 2 (map relu (fc1_bias (parameters m))))))"
    by (subst forward_demo) (simp_all only: P tr dropout_params_fields length_replicate if_True)
  then show ?thesis
    by (simp only: P dropout_params_fields relu drop fc2 fst_conv snd_conv)
qed

lemma two_rows_tensor:
  "decode_rows demo_lib two_rows
     = Inr [[replicate 28 (replicate 28 0)], [replicate 28 (replicate 28 0)]]"
  "np_stack [[replicate 28 (replicate 28 0)], [replicate 28 (replicate 28 0)]]
     = Inr (blank_batch 2)"
  by (simp_all add: two_rows_def demo_lib_def blank_image_def np_stack_def blank_batch_def
      eval_nat_numeral)

lemma predict_dropout_net:
  assumes w: "wrapped_model w = Some m"
    and P: "parameters m = dropout_params" and tr: "training m"
    and r0: "\<And>k. k < 50 \<Longrightarrow> g (k + 40) = b0"
    and r1: "\<And>k. k < 50 \<Longrightarrow> g (k + 90) = b1"
  shows "predict demo_lib w two_rows g =
     (max_dim1_indices
        [((if b0 then 1 else 0) - ln (exp (if b0 then 1 else 0) + exp (if b1 then 1 else 0)))
           # replicate 9 (- ln 2),
         ((if b1 then 1 else 0) - ln (exp (if b0 then 1 else 0) + exp (if b1 then 1 else 0)))
           # replicate 9 (- ln 2)],
      \<lambda>i. g (i + 140))"
proof -
  have "forward demo_lib m g (blank_batch 2) =
     (Inr [((if b0 then 1 else 0) - ln (exp (if b0 then 1 else 0) + exp (if b1 then 1 else 0)))
           # replicate 9 (- ln 2),
         ((if b1 then 1 else 0) - ln (exp (if b0 then 1 else 0) + exp (if b1 then 1 else 0)))
           # replicate 9 (- ln 2)],
      \<lambda>i. g (i + 140))"
    using forward_dropout_net [OF P tr r0 r1] by (simp only: log_softmax_two)
  then show ?thesis
    by (simp add: predict_def two_rows_tensor w del: replicate_Suc)
qed

text \<open>
  Claim C7 fails on the code.  \<^verbatim>\<open>load_context\<close> takes the scripted module as it was
  saved and never calls \<^verbatim>\<open>eval()\<close>; a run of zero epochs never calls \<^verbatim>\<open>test\<close>, the only
  place where \<^verbatim>\<open>model.eval()\<close> is called, so it saves the module in training mode, where
  \<^verbatim>\<open>forward\<close> applies dropout.  After such a run, two calls of \<^verbatim>\<open>predict\<close> on the same
  two rows, the second from the generator state the first has left, return the labels
  \<open>[0, 1]\<close> and then \<open>[1, 0]\<close>.  (In evaluation mode the labels do not depend on the
  generator: \<open>predict_eval_mode_deterministic\<close>.)
\<close>

theorem predict_twice_differs:
  "load_context
      (files (state_of (main demo_lib (demo_config 0 1) (initial_state dropout_params no_coins))))
      [(''scripted_model'', ''scripted_model.pth'')] \<lparr>wrapped_model = None\<rparr>
     = Inr \<lparr>wrapped_model = Some \<lparr>parameters = dropout_params, training = True\<rparr>\<rparr>
   \<and> predict demo_lib \<lparr>wrapped_model = Some \<lparr>parameters = dropout_params, training = True\<rparr>\<rparr>
        two_rows demo_coins = (Inr [0, 1], \<lambda>i. demo_coins (i + 140))
   \<and> predict demo_lib \<lparr>wrapped_model = Some \<lparr>parameters = dropout_params, training = True\<rparr>\<rparr>
        two_rows (\<lambda>i. demo_coins (i + 140)) = (Inr [1, 0], \<lambda>i. demo_coins (i + 140 + 140))"
proof -
  let ?m = "\<lparr>parameters = dropout_params, training = True\<rparr>"
  let ?w = "\<lparr>wrapped_model = Some ?m\<rparr>"
  have load: "load_context
      (files (state_of (main demo_lib (demo_config 0 1) (initial_state dropout_params no_coins))))
      [(''scripted_model'', ''scripted_model.pth'')] \<lparr>wrapped_model = None\<rparr> = Inr ?w"
    by (simp add: main_def Let_def load_context_def initial_state_def
        demo_lib_def [THEN arg_cong [where f = get_default_conda_env]]
        add_libraries_to_conda_env_def find_pip_def)
  have first: "predict demo_lib ?w two_rows demo_coins = (Inr [0, 1], \<lambda>i. demo_coins (i + 140))"
    by (subst predict_dropout_net [where m = ?m and ?b0.0 = True and ?b1.0 = False])
       (simp_all add: demo_coins_def labels_first_kept del: replicate_Suc)
  have second: "predict demo_lib ?w two_rows (\<lambda>i. demo_coins (i + 140))
       = (Inr [1, 0], \<lambda>i. demo_coins (i + 140 + 140))"
    by (subst predict_dropout_net [where m = ?m and ?b0.0 = False and ?b1.0 = True])
       (simp_all add: demo_coins_def labels_second_kept del: replicate_Suc)
  from load first second show ?thesis by (intro conjI)
qed

end
